theory Spec2Isabelle
  imports Complex_Main "HOL-Library.Sublist"
begin

section \<open>JavaScript values\<close>

text \<open>
  The handler of \<^verbatim>\<open>src/backend/server.js\<close> works on the values that \<^verbatim>\<open>express.json()\<close>
  puts into \<^verbatim>\<open>req.body\<close>, and JavaScript is dynamically typed: every field may hold
  any JSON value, or be absent (\<^verbatim>\<open>undefined\<close>).

  A number is a double. A finite double is the rational it stands for; \<^verbatim>\<open>-0\<close> is not told
  apart from \<^verbatim>\<open>0\<close>, which this program cannot do either (both are falsy, both print as
  \<^verbatim>\<open>0\<close>). \<^verbatim>\<open>JSON.parse\<close> gives an infinity for a literal too large (\<^verbatim>\<open>1e999\<close>), and never
  \<^verbatim>\<open>NaN\<close>. Strings are lists of 8-bit characters. An object is the list of its own
  properties in the engine's enumeration order.
\<close>

datatype number = Finite rat | Infinity | NegInfinity | NaN

datatype jsval =
    JUndefined
  | JNull
  | JBool bool
  | JNum number
  | JStr string
  | JArr "jsval list"
  | JObj "(string \<times> jsval) list"

text \<open>
  \<^verbatim>\<open>ToBoolean\<close>: what \<^verbatim>\<open>!x\<close> negates. Zero and \<^verbatim>\<open>NaN\<close> are the falsy numbers; arrays and
  objects are truthy, also when empty.
\<close>

fun truthy :: "jsval \<Rightarrow> bool" where
  "truthy JUndefined = False"
| "truthy JNull = False"
| "truthy (JBool b) = b"
| "truthy (JNum n) = (n \<noteq> Finite 0 \<and> n \<noteq> NaN)"
| "truthy (JStr s) = (s \<noteq> [])"
| "truthy (JArr xs) = True"
| "truthy (JObj ps) = True"

text \<open>Property access \<^verbatim>\<open>obj.k\<close> on a plain object: an absent property reads as \<^verbatim>\<open>undefined\<close>.\<close>

definition property :: "(string \<times> jsval) list \<Rightarrow> string \<Rightarrow> jsval" where
  "property obj k = (case map_of obj k of None \<Rightarrow> JUndefined | Some v \<Rightarrow> v)"

subsection \<open>Errors\<close>

text \<open>
  An exception is its \<^verbatim>\<open>Error\<close> object, of which the handler reads the message. A
  \<^verbatim>\<open>TypeError\<close> is what the language itself throws.
\<close>

datatype error = Error (message: string) | TypeError (message: string)

text \<open>\<^verbatim>\<open>e1; e2\<close> where \<open>e1\<close> may throw: the rest runs on the value of \<open>e1\<close>, or not at all.\<close>

fun and_then :: "error + 'a \<Rightarrow> ('a \<Rightarrow> error + 'b) \<Rightarrow> error + 'b" where
  "and_then (Inl e) f = Inl e"
| "and_then (Inr x) f = f x"

text \<open>The results of a loop whose body may throw: the first error ends it.\<close>

fun collect :: "(error + 'a) list \<Rightarrow> error + 'a list" where
  "collect [] = Inr []"
| "collect (Inl e # rs) = Inl e"
| "collect (Inr x # rs) = (case collect rs of Inl e \<Rightarrow> Inl e | Inr xs \<Rightarrow> Inr (x # xs))"

subsection \<open>Conversion to text\<close>

text \<open>
  \<^verbatim>\<open>Number::toString\<close>, the text of a double (the shortest decimal that reads back as the
  same double, in exponent form from \<^verbatim>\<open>1e21\<close> on), is a builtin of the language and not
  code of \<^verbatim>\<open>server.js\<close>. It is a parameter \<open>nt\<close> of everything that prints a number.
\<close>

type_synonym number_text = "number \<Rightarrow> string"

fun join :: "string \<Rightarrow> string list \<Rightarrow> string" where
  "join sep [] = []"
| "join sep [x] = x"
| "join sep (x # y # ys) = x @ sep @ join sep (y # ys)"

text \<open>
  \<^verbatim>\<open>ToString\<close>, which a template literal applies to each \<^verbatim>\<open>${...}\<close>. An array is its
  elements joined by commas, \<^verbatim>\<open>null\<close> and \<^verbatim>\<open>undefined\<close> elements printing as nothing. An
  object parsed from JSON inherits \<^verbatim>\<open>Object.prototype.toString\<close> and prints as
  \<^verbatim>\<open>[object Object]\<close>, unless it has a property \<^verbatim>\<open>toString\<close> of its own: that one is no
  function, \<^verbatim>\<open>valueOf\<close> gives back the object, and the conversion throws a \<^verbatim>\<open>TypeError\<close>
  (the message is that of Node.js).
\<close>

fun toString :: "number_text \<Rightarrow> jsval \<Rightarrow> error + string" where
  "toString nt JUndefined = Inr ''undefined''"
| "toString nt JNull = Inr ''null''"
| "toString nt (JBool b) = Inr (if b then ''true'' else ''false'')"
| "toString nt (JNum n) = Inr (nt n)"
| "toString nt (JStr s) = Inr s"
| "toString nt (JArr xs) =
     (case collect (map (\<lambda>x. if x = JUndefined \<or> x = JNull then Inr [] else toString nt x) xs) of
        Inl e \<Rightarrow> Inl e
      | Inr texts \<Rightarrow> Inr (join '','' texts))"
| "toString nt (JObj ps) =
     (if ''toString'' \<in> set (map fst ps)
      then Inl (TypeError ''Cannot convert object to primitive value'')
      else Inr ''[object Object]'')"

definition hex_digit :: "nat \<Rightarrow> char" where
  "hex_digit d = (if d < 10 then char_of (48 + d) else char_of (87 + d))"

text \<open>\<^verbatim>\<open>QuoteJSONString\<close>: the quote, the backslash and the control characters are escaped.\<close>

definition escape_char :: "char \<Rightarrow> string" where
  "escape_char c =
     (if c = CHR 0x08 then [CHR 0x5C, CHR ''b'']
      else if c = CHR 0x09 then [CHR 0x5C, CHR ''t'']
      else if c = CHR 0x0A then [CHR 0x5C, CHR ''n'']
      else if c = CHR 0x0C then [CHR 0x5C, CHR ''f'']
      else if c = CHR 0x0D then [CHR 0x5C, CHR ''r'']
      else if c = CHR 0x22 then [CHR 0x5C, CHR 0x22]
      else if c = CHR 0x5C then [CHR 0x5C, CHR 0x5C]
      else if (of_char c :: nat) < 0x20
        then [CHR 0x5C, CHR ''u'', CHR ''0'', CHR ''0'',
              hex_digit (of_char c div 16), hex_digit (of_char c mod 16)]
      else [c])"

definition quote :: "string \<Rightarrow> string" where
  "quote s = [CHR 0x22] @ concat (map escape_char s) @ [CHR 0x22]"

text \<open>
  \<^verbatim>\<open>JSON.stringify(v)\<close>. It returns \<^verbatim>\<open>undefined\<close> (here \<open>None\<close>) for \<^verbatim>\<open>undefined\<close>; inside an
  array \<^verbatim>\<open>undefined\<close> prints as \<^verbatim>\<open>null\<close>, inside an object the property is left out. A number
  that is not finite prints as \<^verbatim>\<open>null\<close>. On a value parsed from JSON it does not throw: a
  property \<^verbatim>\<open>toJSON\<close> of such a value is no function and is passed over.
\<close>

fun stringify :: "number_text \<Rightarrow> jsval \<Rightarrow> string option" where
  "stringify nt JUndefined = None"
| "stringify nt JNull = Some ''null''"
| "stringify nt (JBool b) = Some (if b then ''true'' else ''false'')"
| "stringify nt (JNum n) = Some (case n of Finite q \<Rightarrow> nt n | _ \<Rightarrow> ''null'')"
| "stringify nt (JStr s) = Some (quote s)"
| "stringify nt (JArr xs) =
     Some (''['' @ join '','' (map (\<lambda>x. case stringify nt x of None \<Rightarrow> ''null'' | Some s \<Rightarrow> s) xs)
           @ '']'')"
| "stringify nt (JObj ps) =
     Some (''{'' @ join '','' (concat (map (\<lambda>(k, v). case stringify nt v of
                                                   None \<Rightarrow> []
                                                 | Some s \<Rightarrow> [quote k @ '':'' @ s]) ps))
           @ ''}'')"

text \<open>\<^verbatim>\<open>${JSON.stringify(v)}\<close>: the template literal prints an \<^verbatim>\<open>undefined\<close> result as text.\<close>

definition stringify_text :: "number_text \<Rightarrow> jsval \<Rightarrow> string" where
  "stringify_text nt v = (case stringify nt v of None \<Rightarrow> ''undefined'' | Some s \<Rightarrow> s)"

section \<open>Effects: console output and the generation capability\<close>

text \<open>
  What a run does beyond its result is a list of events in the order they happen: each
  \<^verbatim>\<open>console.log\<close>, the \<^verbatim>\<open>console.error\<close> of the catch block, and each \<^verbatim>\<open>model.invoke\<close> with
  its prompt.
\<close>

datatype event =
    ConsoleLog string
  | ConsoleError string error
  | ModelInvoke string

record 's world =
  events :: "event list"
  capability_state :: 's

text \<open>
  Modelled from the spec: the Generation Capability, the \<^verbatim>\<open>invoke\<close> method of the
  \<^verbatim>\<open>ChatGoogleGenerativeAI\<close> class of \<^verbatim>\<open>@langchain/google-genai\<close>, which is not under
  \<^verbatim>\<open>src/\<close>. The spec has it as \<^verbatim>\<open>generate(prompt: string) -> text\<close>, which may fail. It is
  a parameter of the model: from its own state \<open>'s\<close> (the provider, the network) and the
  prompt it gives the text of \<^verbatim>\<open>response.content\<close>, or the error it throws, and its next
  state. The constructor takes the configuration of lines 38 to 41.
\<close>

type_synonym 's capability = "'s \<Rightarrow> string \<Rightarrow> (error + string) \<times> 's"

text \<open>
  Modelled from the spec: the options object of the \<^verbatim>\<open>ChatGoogleGenerativeAI\<close> constructor
  (lines 38 to 41), the provider credential and the model's name.
\<close>

record model_config =
  apiKey :: jsval
  modelName :: string

definition console_log :: "string \<Rightarrow> 's world \<Rightarrow> 's world" where
  "console_log msg w = w\<lparr>events := events w @ [ConsoleLog msg]\<rparr>"

definition console_error :: "string \<Rightarrow> error \<Rightarrow> 's world \<Rightarrow> 's world" where
  "console_error msg e w = w\<lparr>events := events w @ [ConsoleError msg e]\<rparr>"

text \<open>
  \<^verbatim>\<open>await model.invoke([new HumanMessage(prompt)])\<close> and the \<^verbatim>\<open>.content\<close> of its result: the
  call is recorded, the capability answers and moves to its next state.
\<close>

definition model_invoke :: "'s capability \<Rightarrow> string \<Rightarrow> 's world \<Rightarrow> (error + string) \<times> 's world" where
  "model_invoke model prompt w =
     (case model (capability_state w) prompt of
        (response, s') \<Rightarrow>
          (response, w\<lparr>events := events w @ [ModelInvoke prompt], capability_state := s'\<rparr>))"

text \<open>The prompts the capability received, oldest first.\<close>

fun model_calls :: "event list \<Rightarrow> string list" where
  "model_calls [] = []"
| "model_calls (ModelInvoke p # es) = p # model_calls es"
| "model_calls (e # es) = model_calls es"

section \<open>The state graph\<close>

text \<open>
  \<^verbatim>\<open>server.js\<close> builds its pipeline with the class \<^verbatim>\<open>StateGraph\<close> of
  \<^verbatim>\<open>@langchain/langgraph\<close>, a library that is not under \<^verbatim>\<open>src/\<close>. This section models
  the part of it the handler uses, as far as the spec describes it: a state record
  threaded through the stages, whose fields are merged by later writes; stages executed
  strictly in order; any failure in a stage aborting the whole run.
\<close>

text \<open>
  Modelled from the spec: the shared state record of \<^verbatim>\<open>StateGraph\<close>, an object read by
  field name (\<^verbatim>\<open>state.k\<close>).
\<close>

type_synonym state = "string \<Rightarrow> jsval"

text \<open>
  Modelled from the spec: a channel of \<^verbatim>\<open>StateGraph\<close>, as lines 45 to 53 declare them: the
  reducer \<^verbatim>\<open>value\<close>, from the current value and the value written to the new one, and
  the value that \<^verbatim>\<open>default\<close> returns.
\<close>

record channel =
  value_fn :: "jsval \<Rightarrow> jsval \<Rightarrow> jsval"
  default_fn :: jsval

text \<open>
  Modelled from the spec: a node of \<^verbatim>\<open>StateGraph\<close>, an async function from the state to
  the object of the fields it writes; a rejected promise is \<open>Inl\<close>.
\<close>

type_synonym 's node = "state \<Rightarrow> 's world \<Rightarrow> (error + (string \<times> jsval) list) \<times> 's world"

text \<open>
  Modelled from the spec: the \<^verbatim>\<open>StateGraph\<close> object under construction: its channels, its
  nodes by name, and its edges as pairs of node names.
\<close>

record 's StateGraph =
  channels :: "(string \<times> channel) list"
  nodes :: "(string \<times> 's node) list"
  edges :: "(string \<times> string) list"

text \<open>
  Modelled from the spec: the names \<^verbatim>\<open>START\<close> and \<^verbatim>\<open>END\<close> of \<^verbatim>\<open>@langchain/langgraph\<close>, the
  virtual nodes where a run begins and ends.
\<close>

definition START :: string where
  "START = ''__start__''"

definition END :: string where
  "END = ''__end__''"

text \<open>Modelled from the spec: \<^verbatim>\<open>new StateGraph({ channels })\<close>, a graph with nothing in it.\<close>

definition new_StateGraph :: "(string \<times> channel) list \<Rightarrow> 's StateGraph" where
  "new_StateGraph chs = \<lparr>channels = chs, nodes = [], edges = []\<rparr>"

text \<open>Modelled from the spec: \<^verbatim>\<open>StateGraph.addNode(name, f)\<close>.\<close>

definition addNode :: "string \<Rightarrow> 's node \<Rightarrow> 's StateGraph \<Rightarrow> 's StateGraph" where
  "addNode name f g = g\<lparr>nodes := nodes g @ [(name, f)]\<rparr>"

text \<open>Modelled from the spec: \<^verbatim>\<open>StateGraph.addEdge(a, b)\<close>: stage \<open>b\<close> follows stage \<open>a\<close>.\<close>

definition addEdge :: "string \<Rightarrow> string \<Rightarrow> 's StateGraph \<Rightarrow> 's StateGraph" where
  "addEdge a b g = g\<lparr>edges := edges g @ [(a, b)]\<rparr>"

text \<open>Modelled from the spec: \<^verbatim>\<open>StateGraph.setEntryPoint(name)\<close>: the run begins at \<open>name\<close>.\<close>

definition setEntryPoint :: "string \<Rightarrow> 's StateGraph \<Rightarrow> 's StateGraph" where
  "setEntryPoint name g = addEdge START name g"

text \<open>Modelled from the spec: \<^verbatim>\<open>StateGraph.setFinishPoint(name)\<close>: the run ends after \<open>name\<close>.\<close>

definition setFinishPoint :: "string \<Rightarrow> 's StateGraph \<Rightarrow> 's StateGraph" where
  "setFinishPoint name g = addEdge name END g"

text \<open>
  Modelled from the spec: the state a run of \<^verbatim>\<open>StateGraph\<close> starts from, every channel at
  its default (the spec: \<open>analysis\<close> and \<open>report\<close> initially empty).
\<close>

definition initial_state :: "(string \<times> channel) list \<Rightarrow> state" where
  "initial_state chs k = (case map_of chs k of None \<Rightarrow> JUndefined | Some ch \<Rightarrow> default_fn ch)"

text \<open>
  Modelled from the spec: the merge of \<^verbatim>\<open>StateGraph\<close>, fields merged by later writes. Each
  written field goes through the reducer of its channel; a field with no channel is
  dropped.
\<close>

fun apply_writes :: "(string \<times> channel) list \<Rightarrow> (string \<times> jsval) list \<Rightarrow> state \<Rightarrow> state" where
  "apply_writes chs [] st = st"
| "apply_writes chs ((k, v) # ws) st =
     apply_writes chs ws
       (case map_of chs k of None \<Rightarrow> st | Some ch \<Rightarrow> st(k := value_fn ch (st k) v))"

text \<open>
  Modelled from the spec: the number of steps one run of \<^verbatim>\<open>StateGraph\<close> may take, the
  default of \<^verbatim>\<open>@langchain/langgraph\<close>. With it the executor below is total on every graph,
  also a cyclic one; the spec's pipeline, two stages in a straight line, takes three
  steps.
\<close>

definition recursionLimit :: nat where
  "recursionLimit = 25"

text \<open>
  Modelled from the spec: the executor of \<^verbatim>\<open>StateGraph\<close>, from node \<open>n\<close> on. The stages
  run strictly in order: a node runs on the current state, its writes are merged, and the
  run goes on along the edge that leaves the node (the graphs modelled have at most one)
  until \<open>END\<close>. A failure in a node aborts the run at once, with no state returned.
\<close>

fun run_from :: "nat \<Rightarrow> 's StateGraph \<Rightarrow> string \<Rightarrow> state \<Rightarrow> 's world \<Rightarrow> (error + state) \<times> 's world" where
  "run_from 0 g n st w = (Inl (Error ''Recursion limit reached.''), w)"
| "run_from (Suc fuel) g n st w =
     (if n = END then (Inr st, w)
      else (case map_of (nodes g) n of
              None \<Rightarrow> (Inl (Error ''Node not found.''), w)
            | Some f \<Rightarrow>
                (case f st w of
                   (Inl e, w') \<Rightarrow> (Inl e, w')
                 | (Inr writes, w') \<Rightarrow>
                     (case map_of (edges g) n of
                        None \<Rightarrow> (Inr (apply_writes (channels g) writes st), w')
                      | Some n' \<Rightarrow>
                          run_from fuel g n' (apply_writes (channels g) writes st) w'))))"

text \<open>
  Modelled from the spec: \<^verbatim>\<open>StateGraph.compile().invoke(input)\<close>: the fields of the input
  are written into the initial state, and the run starts at the entry point.
\<close>

definition invoke :: "'s StateGraph \<Rightarrow> (string \<times> jsval) list \<Rightarrow> 's world \<Rightarrow> (error + state) \<times> 's world" where
  "invoke g input w =
     (case map_of (edges g) START of
        None \<Rightarrow> (Inl (Error ''Entry point not set.''), w)
      | Some n \<Rightarrow>
          run_from recursionLimit g n
            (apply_writes (channels g) input (initial_state (channels g))) w)"

section \<open>The report pipeline of \<^verbatim>\<open>server.js\<close>\<close>

definition nl :: string where
  "nl = [CHR 0x0A]"

text \<open>Lines 45 to 53: every channel keeps the last value written.\<close>

definition graphState :: "(string \<times> channel) list" where
  "graphState =
     [(''studentName'', \<lparr>value_fn = (\<lambda>x y. y), default_fn = JStr ''''\<rparr>),
      (''grade'', \<lparr>value_fn = (\<lambda>x y. y), default_fn = JNum (Finite 0)\<rparr>),
      (''score'', \<lparr>value_fn = (\<lambda>x y. y), default_fn = JNum (Finite 0)\<rparr>),
      (''totalItems'', \<lparr>value_fn = (\<lambda>x y. y), default_fn = JNum (Finite 0)\<rparr>),
      (''incorrectWords'', \<lparr>value_fn = (\<lambda>x y. y), default_fn = JArr []\<rparr>),
      (''analysis'', \<lparr>value_fn = (\<lambda>x y. y), default_fn = JStr ''''\<rparr>),
      (''report'', \<lparr>value_fn = (\<lambda>x y. y), default_fn = JStr ''''\<rparr>)]"

text \<open>
  Lines 58 to 64: the text of the analyst's template literal, the three \<^verbatim>\<open>${...}\<close> already
  converted.
\<close>

definition analystTemplate :: "string \<Rightarrow> string \<Rightarrow> string \<Rightarrow> string" where
  "analystTemplate studentName grade incorrectWords =
     ''You are a spelling analyst. Your job is to analyze the spelling mistakes of a student and identify patterns. Do not write a report for the student, just provide a technical analysis.'' @ nl @
     ''      '' @ nl @
     ''      Student: '' @ studentName @ nl @
     ''      Grade: '' @ grade @ nl @
     ''      Incorrect words (correct -> student's attempt): '' @ incorrectWords @ nl @
     ''      '' @ nl @
     ''      Based on these errors, identify the likely reasons for the mistakes (e.g., phonetic confusion, vowel swaps, silent letters, common typos). Provide a concise, bullet-pointed analysis.''"

text \<open>
  Lines 58 to 64: the template literal of the analyst node. Its \<^verbatim>\<open>${...}\<close> are converted
  from left to right, and a conversion that throws ends the evaluation.
\<close>

definition analystPrompt :: "number_text \<Rightarrow> state \<Rightarrow> error + string" where
  "analystPrompt nt state =
     and_then (toString nt (state ''studentName'')) (\<lambda>studentName.
     and_then (toString nt (state ''grade'')) (\<lambda>grade.
       Inr (analystTemplate studentName grade (stringify_text nt (state ''incorrectWords'')))))"

text \<open>Lines 56 to 69. An error thrown while the prompt is built rejects the node's promise.\<close>

definition analystNode :: "number_text \<Rightarrow> 's capability \<Rightarrow> 's node" where
  "analystNode nt model state w =
     (let w1 = console_log ''Running analyst node...'' w
      in case analystPrompt nt state of
           Inl e \<Rightarrow> (Inl e, w1)
         | Inr prompt \<Rightarrow>
             (case model_invoke model prompt w1 of
                (Inl e, w2) \<Rightarrow> (Inl e, w2)
              | (Inr content, w2) \<Rightarrow>
                  (Inr [(''analysis'', JStr content)],
                   console_log ''Analyst node complete.'' w2)))"

text \<open>
  Lines 73 to 80: the text of the reporter's template literal, the five \<^verbatim>\<open>${...}\<close> already
  converted.
\<close>

definition reporterTemplate :: "string \<Rightarrow> string \<Rightarrow> string \<Rightarrow> string \<Rightarrow> string \<Rightarrow> string" where
  "reporterTemplate studentName grade score totalItems analysis =
     ''You are a friendly and encouraging teacher. Write a personalized report for a student based on the analysis of their spelling mistakes. The report should be in HTML format.'' @ nl @
     ''      '' @ nl @
     ''      Student: '' @ studentName @ nl @
     ''      Grade: '' @ grade @ nl @
     ''      Score: '' @ score @ ''/'' @ totalItems @ nl @
     ''      Analysis of mistakes: '' @ analysis @ nl @
     ''      '' @ nl @
     ''      Write a report that is positive and provides specific, actionable advice. Start with encouragement, then explain the patterns of mistakes in simple terms, and end with 2-3 clear tips for improvement. Format the output as clean HTML with paragraphs (<p>) and unordered lists (<ul><li>).''"

text \<open>Lines 73 to 80: the template literal of the reporter node.\<close>

definition reporterPrompt :: "number_text \<Rightarrow> state \<Rightarrow> error + string" where
  "reporterPrompt nt state =
     and_then (toString nt (state ''studentName'')) (\<lambda>studentName.
     and_then (toString nt (state ''grade'')) (\<lambda>grade.
     and_then (toString nt (state ''score'')) (\<lambda>score.
     and_then (toString nt (state ''totalItems'')) (\<lambda>totalItems.
     and_then (toString nt (state ''analysis'')) (\<lambda>analysis.
       Inr (reporterTemplate studentName grade score totalItems analysis))))))"

text \<open>Lines 71 to 85.\<close>

definition reporterNode :: "number_text \<Rightarrow> 's capability \<Rightarrow> 's node" where
  "reporterNode nt model state w =
     (let w1 = console_log ''Running reporter node...'' w
      in case reporterPrompt nt state of
           Inl e \<Rightarrow> (Inl e, w1)
         | Inr prompt \<Rightarrow>
             (case model_invoke model prompt w1 of
                (Inl e, w2) \<Rightarrow> (Inl e, w2)
              | (Inr content, w2) \<Rightarrow>
                  (Inr [(''report'', JStr content)],
                   console_log ''Reporter node complete.'' w2)))"

text \<open>Lines 89 to 94.\<close>

definition workflow :: "number_text \<Rightarrow> 's capability \<Rightarrow> 's StateGraph" where
  "workflow nt model =
     setFinishPoint ''reporter''
       (setEntryPoint ''analyst''
         (addEdge ''analyst'' ''reporter''
           (addNode ''reporter'' (reporterNode nt model)
             (addNode ''analyst'' (analystNode nt model)
               (new_StateGraph graphState)))))"

section \<open>The handler of \<^verbatim>\<open>POST /api/generate-report\<close>\<close>

text \<open>
  A response is the status given to \<^verbatim>\<open>res.status\<close> and the object given to \<^verbatim>\<open>res.json\<close>.
  \<open>GEMINI_API_KEY\<close> is the value of \<^verbatim>\<open>process.env.GEMINI_API_KEY\<close>, read once at line 10:
  a string, or \<^verbatim>\<open>undefined\<close> when the variable is not set. \<open>req_body\<close> is the object that
  \<^verbatim>\<open>express.json()\<close> parsed from the request. \<open>nt\<close> is the language's text of a number.
\<close>

datatype response = Response (status: nat) (body: jsval)

text \<open>Line 32: the condition under which the request is refused.\<close>

definition missing_required_fields :: "(string \<times> jsval) list \<Rightarrow> bool" where
  "missing_required_fields req_body =
     (let studentName = property req_body ''studentName'';
          grade = property req_body ''grade'';
          score = property req_body ''score'';
          totalItems = property req_body ''totalItems'';
          incorrectWords = property req_body ''incorrectWords''
      in \<not> truthy studentName \<or> \<not> truthy grade \<or> score = JUndefined
         \<or> \<not> truthy totalItems \<or> \<not> truthy incorrectWords)"

text \<open>Lines 101 to 107: the object given to \<^verbatim>\<open>appGraph.invoke\<close>.\<close>

definition graph_input :: "(string \<times> jsval) list \<Rightarrow> (string \<times> jsval) list" where
  "graph_input req_body =
     [(''studentName'', property req_body ''studentName''),
      (''grade'', property req_body ''grade''),
      (''score'', property req_body ''score''),
      (''totalItems'', property req_body ''totalItems''),
      (''incorrectWords'', property req_body ''incorrectWords'')]"

text \<open>Lines 25 to 110: the body of the \<^verbatim>\<open>try\<close> block; \<open>Inl\<close> is a thrown error.\<close>

definition try_block ::
  "number_text \<Rightarrow> jsval \<Rightarrow> (model_config \<Rightarrow> 's capability) \<Rightarrow> (string \<times> jsval) list \<Rightarrow> 's world
     \<Rightarrow> (error + response) \<times> 's world" where
  "try_block nt GEMINI_API_KEY ChatGoogleGenerativeAI req_body w =
     (if \<not> truthy GEMINI_API_KEY
      then (Inl (Error ''GEMINI_API_KEY environment variable not set.''), w)
      else if missing_required_fields req_body
      then (Inr (Response 400
                   (JObj [(''error'', JStr ''Missing required fields in request body.'')])), w)
      else
        let w1 = console_log ''Initializing Google AI model...'' w;
            model = ChatGoogleGenerativeAI
                      \<lparr>apiKey = GEMINI_API_KEY, modelName = ''gemini-2.0-flash''\<rparr>;
            w2 = console_log ''Google AI model initialized.'' w1;
            w3 = console_log ''Compiling LangGraph workflow...'' w2;
            appGraph = workflow nt model;
            w4 = console_log ''LangGraph workflow compiled.'' w3;
            w5 = console_log ''Invoking graph...'' w4
        in case invoke appGraph (graph_input req_body) w5 of
             (Inl e, w6) \<Rightarrow> (Inl e, w6)
           | (Inr finalState, w6) \<Rightarrow>
               (Inr (Response 200 (JObj [(''report'', finalState ''report'')])),
                console_log ''Graph invocation complete.'' w6))"

text \<open>Lines 22 to 119: the handler, with the \<^verbatim>\<open>catch\<close> block of lines 112 to 118.\<close>

definition generate_report ::
  "number_text \<Rightarrow> jsval \<Rightarrow> (model_config \<Rightarrow> 's capability) \<Rightarrow> (string \<times> jsval) list \<Rightarrow> 's world
     \<Rightarrow> response \<times> 's world" where
  "generate_report nt GEMINI_API_KEY ChatGoogleGenerativeAI req_body w =
     (let w0 = console_log ''Received request to /api/generate-report'' w
      in case try_block nt GEMINI_API_KEY ChatGoogleGenerativeAI req_body w0 of
           (Inr res, w1) \<Rightarrow> (res, w1)
         | (Inl e, w1) \<Rightarrow>
             (Response 500
                (JObj [(''error'', JStr ''An internal error occurred while generating the report.''),
                       (''details'', JStr (message e))]),
              console_error ''Error generating report:'' e w1))"

section \<open>Names for the statements\<close>

text \<open>
  The graph state when the analyst node starts: the channels' defaults with the fields of
  the request written into them.
\<close>

definition input_state :: "(string \<times> jsval) list \<Rightarrow> state" where
  "input_state req_body =
     apply_writes graphState (graph_input req_body) (initial_state graphState)"

text \<open>The graph state when the reporter node starts, the analyst having returned \<open>a\<close>.\<close>

definition analysed_state :: "(string \<times> jsval) list \<Rightarrow> string \<Rightarrow> state" where
  "analysed_state req_body a =
     apply_writes graphState [(''analysis'', JStr a)] (input_state req_body)"

text \<open>The console output of a request that passes both checks, up to the start of the graph.\<close>

definition startup_events :: "event list" where
  "startup_events =
     [ConsoleLog ''Received request to /api/generate-report'',
      ConsoleLog ''Initializing Google AI model...'',
      ConsoleLog ''Google AI model initialized.'',
      ConsoleLog ''Compiling LangGraph workflow...'',
      ConsoleLog ''LangGraph workflow compiled.'',
      ConsoleLog ''Invoking graph...'']"

definition gemini_config :: "jsval \<Rightarrow> model_config" where
  "gemini_config key = \<lparr>apiKey = key, modelName = ''gemini-2.0-flash''\<rparr>"

text \<open>The two fixed response bodies of the handler.\<close>

definition validation_error :: response where
  "validation_error =
     Response 400 (JObj [(''error'', JStr ''Missing required fields in request body.'')])"

definition internal_error :: "string \<Rightarrow> response" where
  "internal_error details =
     Response 500
       (JObj [(''error'', JStr ''An internal error occurred while generating the report.''),
              (''details'', JStr details)])"

text \<open>
  Capability mocks, as the spec's testable properties use them. \<open>scripted\<close> answers each
  call with the next entry of a script, which is its state; \<open>counting\<close> returns one fixed
  text for every prompt and counts its calls.
\<close>

definition scripted :: "model_config \<Rightarrow> ((error + string) list) capability" where
  "scripted cfg s prompt =
     (case s of [] \<Rightarrow> (Inl (Error ''script exhausted''), []) | r # rs \<Rightarrow> (r, rs))"

definition counting :: "model_config \<Rightarrow> nat capability" where
  "counting cfg s prompt = (Inr ''<p>Well done!</p>'', Suc s)"

text \<open>The request of the spec's scenario, and variations of it.\<close>

definition num :: "int \<Rightarrow> jsval" where
  "num i = JNum (Finite (of_int i))"

definition alex :: "jsval \<Rightarrow> jsval \<Rightarrow> (string \<times> jsval) list" where
  "alex score incorrectWords =
     [(''studentName'', JStr ''Alex''), (''grade'', num 3), (''score'', score),
      (''totalItems'', num 10), (''incorrectWords'', incorrectWords)]"

definition friend_words :: jsval where
  "friend_words = JArr [JObj [(''correct'', JStr ''friend''), (''attempt'', JStr ''freind'')]]"

definition fresh :: "'s \<Rightarrow> 's world" where
  "fresh s = \<lparr>events = [], capability_state = s\<rparr>"

text \<open>
  Validity in the words of the interface description: all five fields are present
  (non-falsy), except that a score of \<open>0\<close> still counts as present.
\<close>

definition valid_as_specified :: "(string \<times> jsval) list \<Rightarrow> bool" where
  "valid_as_specified req_body =
     (truthy (property req_body ''studentName'')
      \<and> truthy (property req_body ''grade'')
      \<and> (truthy (property req_body ''score'') \<or> property req_body ''score'' = JNum (Finite 0))
      \<and> truthy (property req_body ''totalItems'')
      \<and> truthy (property req_body ''incorrectWords''))"

text \<open>
  A text of numbers for the examples. On the integers up to \<open>2^53\<close> in magnitude, which a
  double holds exactly, and on the numbers that are not finite, it is what
  \<^verbatim>\<open>Number::toString\<close> gives: the decimal digits, with a minus sign below zero. The examples
  use no other number; on every other number it gives the empty text, where the language
  has a decimal point or an exponent.
\<close>

fun show_nat :: "nat \<Rightarrow> string" where
  "show_nat n = (if n < 10 then [char_of (48 + n)]
                 else show_nat (n div 10) @ [char_of (48 + n mod 10)])"

declare show_nat.simps [simp del]

definition show_int :: "int \<Rightarrow> string" where
  "show_int i = (if i < 0 then CHR ''-'' # show_nat (nat (- i)) else show_nat (nat i))"

definition safe_integer_text :: number_text where
  "safe_integer_text n =
     (case n of
        Finite q \<Rightarrow>
          (if of_int \<lfloor>q\<rfloor> = q \<and> \<bar>q\<bar> \<le> 2 ^ 53 then show_int \<lfloor>q\<rfloor> else [])
      | Infinity \<Rightarrow> ''Infinity''
      | NegInfinity \<Rightarrow> ''-Infinity''
      | NaN \<Rightarrow> ''NaN'')"

section \<open>The graph of the workflow\<close>

lemma workflow_channels: "channels (workflow nt m) = graphState"
  by (simp add: workflow_def setFinishPoint_def setEntryPoint_def addEdge_def addNode_def
      new_StateGraph_def)

lemma workflow_nodes:
  "map_of (nodes (workflow nt m)) ''analyst'' = Some (analystNode nt m)"
  "map_of (nodes (workflow nt m)) ''reporter'' = Some (reporterNode nt m)"
  by (simp_all add: workflow_def setFinishPoint_def setEntryPoint_def addEdge_def addNode_def
      new_StateGraph_def)

lemma workflow_edges:
  "map_of (edges (workflow nt m)) START = Some ''analyst''"
  "map_of (edges (workflow nt m)) ''analyst'' = Some ''reporter''"
  "map_of (edges (workflow nt m)) ''reporter'' = Some END"
  by (simp_all add: workflow_def setFinishPoint_def setEntryPoint_def addEdge_def addNode_def
      new_StateGraph_def START_def END_def)

lemma not_END: "''analyst'' \<noteq> END" "''reporter'' \<noteq> END"
  by (simp_all add: END_def)

lemma invoke_workflow:
  "invoke (workflow nt m) input w =
     (case analystNode nt m (apply_writes graphState input (initial_state graphState)) w of
        (Inl e, w1) \<Rightarrow> (Inl e, w1)
      | (Inr u1, w1) \<Rightarrow>
          (case reporterNode nt m
                  (apply_writes graphState u1
                     (apply_writes graphState input (initial_state graphState))) w1 of
             (Inl e, w2) \<Rightarrow> (Inl e, w2)
           | (Inr u2, w2) \<Rightarrow>
               (Inr (apply_writes graphState u2
                       (apply_writes graphState u1
                          (apply_writes graphState input (initial_state graphState)))), w2)))"
  by (simp add: invoke_def recursionLimit_def eval_nat_numeral workflow_edges workflow_nodes
      workflow_channels not_END split: prod.splits sum.splits)

section \<open>The two nodes\<close>

lemma analystNode_throws:
  "analystPrompt nt st = Inl e \<Longrightarrow>
   analystNode nt m st w =
     (Inl e, w\<lparr>events := events w @ [ConsoleLog ''Running analyst node...'']\<rparr>)"
  by (simp add: analystNode_def console_log_def)

lemma analystNode_Inr:
  "analystPrompt nt st = Inr p \<Longrightarrow> m (capability_state w) p = (Inr a, s') \<Longrightarrow>
   analystNode nt m st w =
     (Inr [(''analysis'', JStr a)],
      w\<lparr>events := events w @ [ConsoleLog ''Running analyst node...'',
                              ModelInvoke p,
                              ConsoleLog ''Analyst node complete.''],
        capability_state := s'\<rparr>)"
  by (simp add: analystNode_def model_invoke_def console_log_def)

lemma analystNode_Inl:
  "analystPrompt nt st = Inr p \<Longrightarrow> m (capability_state w) p = (Inl e, s') \<Longrightarrow>
   analystNode nt m st w =
     (Inl e,
      w\<lparr>events := events w @ [ConsoleLog ''Running analyst node...'', ModelInvoke p],
        capability_state := s'\<rparr>)"
  by (simp add: analystNode_def model_invoke_def console_log_def)

lemma reporterNode_throws:
  "reporterPrompt nt st = Inl e \<Longrightarrow>
   reporterNode nt m st w =
     (Inl e, w\<lparr>events := events w @ [ConsoleLog ''Running reporter node...'']\<rparr>)"
  by (simp add: reporterNode_def console_log_def)

lemma reporterNode_Inr:
  "reporterPrompt nt st = Inr p \<Longrightarrow> m (capability_state w) p = (Inr r, s') \<Longrightarrow>
   reporterNode nt m st w =
     (Inr [(''report'', JStr r)],
      w\<lparr>events := events w @ [ConsoleLog ''Running reporter node...'',
                              ModelInvoke p,
                              ConsoleLog ''Reporter node complete.''],
        capability_state := s'\<rparr>)"
  by (simp add: reporterNode_def model_invoke_def console_log_def)

lemma reporterNode_Inl:
  "reporterPrompt nt st = Inr p \<Longrightarrow> m (capability_state w) p = (Inl e, s') \<Longrightarrow>
   reporterNode nt m st w =
     (Inl e,
      w\<lparr>events := events w @ [ConsoleLog ''Running reporter node...'', ModelInvoke p],
        capability_state := s'\<rparr>)"
  by (simp add: reporterNode_def model_invoke_def console_log_def)

lemma write_analysis: "apply_writes graphState [(''analysis'', v)] st = st(''analysis'' := v)"
  by (simp add: graphState_def)

lemma write_report: "apply_writes graphState [(''report'', v)] st = st(''report'' := v)"
  by (simp add: graphState_def)

lemma input_state_fields:
  "input_state b ''studentName'' = property b ''studentName''"
  "input_state b ''grade'' = property b ''grade''"
  "input_state b ''score'' = property b ''score''"
  "input_state b ''totalItems'' = property b ''totalItems''"
  "input_state b ''incorrectWords'' = property b ''incorrectWords''"
  "input_state b ''analysis'' = JStr ''''"
  "input_state b ''report'' = JStr ''''"
  by (simp_all add: input_state_def graph_input_def graphState_def initial_state_def)

lemma analysed_state_fields:
  "analysed_state b a ''studentName'' = property b ''studentName''"
  "analysed_state b a ''grade'' = property b ''grade''"
  "analysed_state b a ''score'' = property b ''score''"
  "analysed_state b a ''totalItems'' = property b ''totalItems''"
  "analysed_state b a ''incorrectWords'' = property b ''incorrectWords''"
  "analysed_state b a ''analysis'' = JStr a"
  "analysed_state b a ''report'' = JStr ''''"
  unfolding analysed_state_def write_analysis
  by (simp_all add: input_state_fields)

section \<open>The prompts\<close>

lemma and_then_Inr_iff: "(and_then m f = Inr y) = (\<exists>x. m = Inr x \<and> f x = Inr y)"
  by (cases m) simp_all

lemma analystPrompt_built:
  "toString nt (st ''studentName'') = Inr n \<Longrightarrow> toString nt (st ''grade'') = Inr g \<Longrightarrow>
   analystPrompt nt st = Inr (analystTemplate n g (stringify_text nt (st ''incorrectWords'')))"
  by (simp add: analystPrompt_def)

lemma reporterPrompt_built:
  "toString nt (st ''studentName'') = Inr n \<Longrightarrow> toString nt (st ''grade'') = Inr g \<Longrightarrow>
   toString nt (st ''score'') = Inr sc \<Longrightarrow> toString nt (st ''totalItems'') = Inr t \<Longrightarrow>
   toString nt (st ''analysis'') = Inr a \<Longrightarrow>
   reporterPrompt nt st = Inr (reporterTemplate n g sc t a)"
  by (simp add: reporterPrompt_def)

lemma reporterPrompt_Inr:
  assumes "reporterPrompt nt st = Inr p"
  obtains n g sc t a where "toString nt (st ''studentName'') = Inr n"
    and "toString nt (st ''grade'') = Inr g" and "toString nt (st ''score'') = Inr sc"
    and "toString nt (st ''totalItems'') = Inr t" and "toString nt (st ''analysis'') = Inr a"
    and "p = reporterTemplate n g sc t a"
  using assms unfolding reporterPrompt_def and_then_Inr_iff by auto

lemma sublist_skip: "sublist xs ys \<Longrightarrow> sublist xs (zs @ ys)"
  by (rule sublist_order.order_trans [OF _ sublist_append_leftI])

lemma sublist_here3: "sublist (a @ b @ c) (a @ b @ c @ rest)"
  by (metis append.assoc sublist_append_rightI)

lemma reporterTemplate_analysis: "sublist a (reporterTemplate n g sc t a)"
  unfolding reporterTemplate_def
  by (intro sublist_appendI sublist_skip)

lemma reporterTemplate_score:
  "sublist (''      Score: '' @ sc @ ''/'') (reporterTemplate n g sc t a)"
  unfolding reporterTemplate_def
  by (intro sublist_here3 sublist_skip)

lemma analystTemplate_words:
  "sublist (''      Incorrect words (correct -> student's attempt): '' @ ws @ nl)
     (analystTemplate n g ws)"
  unfolding analystTemplate_def
  by (intro sublist_here3 sublist_skip)

lemma stringify_text_empty: "stringify_text nt (JArr []) = ''[]''"
  by (simp add: stringify_text_def)

section \<open>One run of the handler, case by case\<close>

lemma try_block_valid:
  "truthy key \<Longrightarrow> \<not> missing_required_fields b \<Longrightarrow>
   try_block nt key mk b w =
     (case invoke (workflow nt (mk (gemini_config key))) (graph_input b)
             (w\<lparr>events := events w @ tl startup_events\<rparr>) of
        (Inl e, w6) \<Rightarrow> (Inl e, w6)
      | (Inr finalState, w6) \<Rightarrow>
          (Inr (Response 200 (JObj [(''report'', finalState ''report'')])),
           console_log ''Graph invocation complete.'' w6))"
  by (simp add: try_block_def gemini_config_def startup_events_def console_log_def)

lemma run_no_key:
  "\<not> truthy key \<Longrightarrow>
   generate_report nt key mk b w =
     (internal_error ''GEMINI_API_KEY environment variable not set.'',
      w\<lparr>events := events w @
          [ConsoleLog ''Received request to /api/generate-report'',
           ConsoleError ''Error generating report:''
             (Error ''GEMINI_API_KEY environment variable not set.'')]\<rparr>)"
  by (simp add: generate_report_def try_block_def internal_error_def console_log_def
      console_error_def)

lemma run_missing:
  "truthy key \<Longrightarrow> missing_required_fields b \<Longrightarrow>
   generate_report nt key mk b w =
     (validation_error,
      w\<lparr>events := events w @ [ConsoleLog ''Received request to /api/generate-report'']\<rparr>)"
  by (simp add: generate_report_def try_block_def validation_error_def console_log_def)

lemma run_analyst_throws:
  assumes "truthy key" and "\<not> missing_required_fields b"
    and "analystPrompt nt (input_state b) = Inl e"
  shows "generate_report nt key mk b w =
     (internal_error (message e),
      w\<lparr>events := events w @ startup_events @
          [ConsoleLog ''Running analyst node...'',
           ConsoleError ''Error generating report:'' e]\<rparr>)"
  using assms
  by (simp add: generate_report_def try_block_valid invoke_workflow console_log_def
      input_state_def [symmetric] analystNode_throws internal_error_def console_error_def
      startup_events_def del: apply_writes.simps)

lemma run_analyst_fails:
  assumes "truthy key" and "\<not> missing_required_fields b"
    and "analystPrompt nt (input_state b) = Inr p1"
    and "mk (gemini_config key) (capability_state w) p1 = (Inl e, s1)"
  shows "generate_report nt key mk b w =
     (internal_error (message e),
      w\<lparr>events := events w @ startup_events @
          [ConsoleLog ''Running analyst node...'',
           ModelInvoke p1,
           ConsoleError ''Error generating report:'' e],
        capability_state := s1\<rparr>)"
  using assms
  by (simp add: generate_report_def try_block_valid invoke_workflow console_log_def
      input_state_def [symmetric] analystNode_Inl internal_error_def console_error_def
      startup_events_def del: apply_writes.simps)

lemma run_reporter_throws:
  assumes "truthy key" and "\<not> missing_required_fields b"
    and "analystPrompt nt (input_state b) = Inr p1"
    and "mk (gemini_config key) (capability_state w) p1 = (Inr a, s1)"
    and "reporterPrompt nt (analysed_state b a) = Inl e"
  shows "generate_report nt key mk b w =
     (internal_error (message e),
      w\<lparr>events := events w @ startup_events @
          [ConsoleLog ''Running analyst node...'',
           ModelInvoke p1,
           ConsoleLog ''Analyst node complete.'',
           ConsoleLog ''Running reporter node...'',
           ConsoleError ''Error generating report:'' e],
        capability_state := s1\<rparr>)"
  using assms
  by (simp add: generate_report_def try_block_valid invoke_workflow console_log_def
      input_state_def [symmetric] analysed_state_def [symmetric]
      analystNode_Inr reporterNode_throws internal_error_def console_error_def
      startup_events_def del: apply_writes.simps)

lemma run_reporter_fails:
  assumes "truthy key" and "\<not> missing_required_fields b"
    and "analystPrompt nt (input_state b) = Inr p1"
    and "mk (gemini_config key) (capability_state w) p1 = (Inr a, s1)"
    and "reporterPrompt nt (analysed_state b a) = Inr p2"
    and "mk (gemini_config key) s1 p2 = (Inl e, s2)"
  shows "generate_report nt key mk b w =
     (internal_error (message e),
      w\<lparr>events := events w @ startup_events @
          [ConsoleLog ''Running analyst node...'',
           ModelInvoke p1,
           ConsoleLog ''Analyst node complete.'',
           ConsoleLog ''Running reporter node...'',
           ModelInvoke p2,
           ConsoleError ''Error generating report:'' e],
        capability_state := s2\<rparr>)"
  using assms
  by (simp add: generate_report_def try_block_valid invoke_workflow console_log_def
      input_state_def [symmetric] analysed_state_def [symmetric]
      analystNode_Inr reporterNode_Inl internal_error_def console_error_def
      startup_events_def del: apply_writes.simps)

lemma run_success:
  assumes "truthy key" and "\<not> missing_required_fields b"
    and "analystPrompt nt (input_state b) = Inr p1"
    and "mk (gemini_config key) (capability_state w) p1 = (Inr a, s1)"
    and "reporterPrompt nt (analysed_state b a) = Inr p2"
    and "mk (gemini_config key) s1 p2 = (Inr r, s2)"
  shows "generate_report nt key mk b w =
     (Response 200 (JObj [(''report'', JStr r)]),
      w\<lparr>events := events w @ startup_events @
          [ConsoleLog ''Running analyst node...'',
           ModelInvoke p1,
           ConsoleLog ''Analyst node complete.'',
           ConsoleLog ''Running reporter node...'',
           ModelInvoke p2,
           ConsoleLog ''Reporter node complete.'',
           ConsoleLog ''Graph invocation complete.''],
        capability_state := s2\<rparr>)"
  using assms
  by (simp add: generate_report_def try_block_valid invoke_workflow console_log_def
      input_state_def [symmetric] analysed_state_def [symmetric]
      analystNode_Inr reporterNode_Inr write_report
      startup_events_def del: apply_writes.simps)

lemma model_calls_append: "model_calls (xs @ ys) = model_calls xs @ model_calls ys"
  by (induction xs rule: model_calls.induct) simp_all

lemma model_calls_startup: "model_calls startup_events = []"
  by (simp add: startup_events_def)

lemma valid_iff:
  "(\<not> missing_required_fields b) =
     (truthy (property b ''studentName'') \<and> truthy (property b ''grade'')
      \<and> property b ''score'' \<noteq> JUndefined
      \<and> truthy (property b ''totalItems'') \<and> truthy (property b ''incorrectWords''))"
  by (auto simp add: missing_required_fields_def)

lemma missing_if_undefined:
  "property b ''studentName'' = JUndefined \<or> property b ''grade'' = JUndefined
   \<or> property b ''score'' = JUndefined \<or> property b ''totalItems'' = JUndefined
   \<or> property b ''incorrectWords'' = JUndefined \<Longrightarrow> missing_required_fields b"
  by (auto simp add: missing_required_fields_def)

text \<open>
  The five ways a request that passes both checks can go: either prompt fails to build,
  either call fails, or both calls succeed.
\<close>

lemma run_valid_cases:
  assumes "truthy key" and "\<not> missing_required_fields b"
  obtains
    (analyst_throws) e where "analystPrompt nt (input_state b) = Inl e"
  | (analyst_fails) p1 e s1 where "analystPrompt nt (input_state b) = Inr p1"
      and "mk (gemini_config key) (capability_state w) p1 = (Inl e, s1)"
  | (reporter_throws) p1 a s1 e where "analystPrompt nt (input_state b) = Inr p1"
      and "mk (gemini_config key) (capability_state w) p1 = (Inr a, s1)"
      and "reporterPrompt nt (analysed_state b a) = Inl e"
  | (reporter_fails) p1 a s1 p2 e s2 where "analystPrompt nt (input_state b) = Inr p1"
      and "mk (gemini_config key) (capability_state w) p1 = (Inr a, s1)"
      and "reporterPrompt nt (analysed_state b a) = Inr p2"
      and "mk (gemini_config key) s1 p2 = (Inl e, s2)"
  | (success) p1 a s1 p2 r s2 where "analystPrompt nt (input_state b) = Inr p1"
      and "mk (gemini_config key) (capability_state w) p1 = (Inr a, s1)"
      and "reporterPrompt nt (analysed_state b a) = Inr p2"
      and "mk (gemini_config key) s1 p2 = (Inr r, s2)"
proof (cases "analystPrompt nt (input_state b)")
  case (Inl e)
  then show ?thesis by (rule analyst_throws)
next
  case p1: (Inr p1)
  obtain x s1 where call1: "mk (gemini_config key) (capability_state w) p1 = (x, s1)"
    by (cases "mk (gemini_config key) (capability_state w) p1")
  show ?thesis
  proof (cases x)
    case (Inl e)
    with p1 call1 show ?thesis by (auto intro: analyst_fails)
  next
    case a: (Inr a)
    show ?thesis
    proof (cases "reporterPrompt nt (analysed_state b a)")
      case (Inl e)
      with p1 call1 a show ?thesis by (auto intro: reporter_throws)
    next
      case p2: (Inr p2)
      obtain y s2 where call2: "mk (gemini_config key) s1 p2 = (y, s2)"
        by (cases "mk (gemini_config key) s1 p2")
      show ?thesis
      proof (cases y)
        case (Inl e)
        with p1 call1 a p2 call2 show ?thesis by (auto intro: reporter_fails)
      next
        case (Inr r)
        with p1 call1 a p2 call2 show ?thesis by (auto intro: success)
      qed
    qed
  qed
qed

lemma run_valid_status:
  assumes "truthy key" and "\<not> missing_required_fields b"
  shows "status (fst (generate_report nt key mk b w)) \<noteq> 400"
  using assms
  by (rule run_valid_cases [where key = key and b = b and nt = nt and mk = mk and w = w])
     (simp_all add: assms run_analyst_throws run_analyst_fails run_reporter_throws
        run_reporter_fails run_success internal_error_def)

lemma run_valid_started:
  assumes "truthy key" and "\<not> missing_required_fields b"
  shows "\<exists>es. events (snd (generate_report nt key mk b w)) =
           events w @ startup_events @ [ConsoleLog ''Running analyst node...''] @ es"
  using assms
  by (rule run_valid_cases [where key = key and b = b and nt = nt and mk = mk and w = w])
     (simp_all add: assms run_analyst_throws run_analyst_fails run_reporter_throws
        run_reporter_fails run_success)

lemma run_valid_first_call:
  assumes "truthy key" and "\<not> missing_required_fields b"
    and "analystPrompt nt (input_state b) = Inr p1"
  shows "\<exists>ps. model_calls (events (snd (generate_report nt key mk b w))) =
           model_calls (events w) @ p1 # ps"
  using assms(1,2)
  by (rule run_valid_cases [where key = key and b = b and nt = nt and mk = mk and w = w])
     (use assms in \<open>simp_all add: run_analyst_fails run_reporter_throws
        run_reporter_fails run_success model_calls_append model_calls_startup\<close>)

lemma response_of_fixed_capability:
  assumes fixed: "\<forall>s p. fst (mk (gemini_config key) s p) = f p"
  shows "fst (generate_report nt key mk b w) =
     (if \<not> truthy key then internal_error ''GEMINI_API_KEY environment variable not set.''
      else if missing_required_fields b then validation_error
      else (case analystPrompt nt (input_state b) of
              Inl e \<Rightarrow> internal_error (message e)
            | Inr p1 \<Rightarrow>
                (case f p1 of
                   Inl e \<Rightarrow> internal_error (message e)
                 | Inr a \<Rightarrow>
                     (case reporterPrompt nt (analysed_state b a) of
                        Inl e \<Rightarrow> internal_error (message e)
                      | Inr p2 \<Rightarrow>
                          (case f p2 of
                             Inl e \<Rightarrow> internal_error (message e)
                           | Inr r \<Rightarrow> Response 200 (JObj [(''report'', JStr r)]))))))"
proof (cases "truthy key")
  case False
  then show ?thesis by (simp add: run_no_key)
next
  case key: True
  show ?thesis
  proof (cases "missing_required_fields b")
    case True
    with key show ?thesis by (simp add: run_missing)
  next
    case valid: False
    have answer: "f p = x" if "mk (gemini_config key) s p = (x, s')" for s p x s'
      using fixed that by (metis fst_conv)
    from key valid show ?thesis
    proof (cases rule: run_valid_cases [where key = key and b = b and nt = nt and mk = mk and w = w])
      case (analyst_throws e)
      with key valid show ?thesis by (simp add: run_analyst_throws)
    next
      case (analyst_fails p1 e s1)
      with key valid answer [OF analyst_fails(2)] show ?thesis
        by (simp add: run_analyst_fails)
    next
      case (reporter_throws p1 a s1 e)
      with key valid answer [OF reporter_throws(2)] show ?thesis
        by (simp add: run_reporter_throws)
    next
      case (reporter_fails p1 a s1 p2 e s2)
      with key valid answer [OF reporter_fails(2)] answer [OF reporter_fails(4)] show ?thesis
        by (simp add: run_reporter_fails)
    next
      case (success p1 a s1 p2 r s2)
      with key valid answer [OF success(2)] answer [OF success(4)] show ?thesis
        by (simp add: run_success)
    qed
  qed
qed

section \<open>The examples\<close>

text \<open>
  The model runs: the texts of the numbers of the spec's scenario, its word list as
  \<^verbatim>\<open>JSON.stringify\<close> prints it, its two prompts, and the conversions of an array and of an
  object with a property \<^verbatim>\<open>toString\<close>.
\<close>

lemma safe_integer_texts:
  "safe_integer_text (Finite 0) = ''0''"
  "safe_integer_text (Finite 3) = ''3''"
  "safe_integer_text (Finite 7) = ''7''"
  "safe_integer_text (Finite 10) = ''10''"
  "safe_integer_text (Finite (- 4)) = ''-4''"
  "safe_integer_text (Finite 1205) = ''1205''"
  by code_simp+

lemma scenario_words:
  "stringify_text safe_integer_text friend_words =
     ''[{'' @ quote ''correct'' @ '':'' @ quote ''friend'' @ '','' @ quote ''attempt'' @ '':''
       @ quote ''freind'' @ ''}]''"
  by code_simp

lemma alex_analystPrompt:
  "analystPrompt safe_integer_text (input_state (alex sc ws)) =
     Inr (analystTemplate ''Alex'' ''3'' (stringify_text safe_integer_text ws))"
  by (simp add: analystPrompt_def input_state_fields property_def alex_def num_def
      safe_integer_texts)

lemma alex_reporterPrompt:
  "toString safe_integer_text sc = Inr t \<Longrightarrow>
   reporterPrompt safe_integer_text (analysed_state (alex sc ws) a) =
     Inr (reporterTemplate ''Alex'' ''3'' t ''10'' a)"
  by (simp add: reporterPrompt_def analysed_state_fields property_def alex_def num_def
      safe_integer_texts)

lemma alex_valid: "sc \<noteq> JUndefined \<Longrightarrow> truthy ws \<Longrightarrow> \<not> missing_required_fields (alex sc ws)"
  by (simp add: valid_iff property_def alex_def num_def)

lemma array_text:
  "toString safe_integer_text (JArr [num 1205, JNull, JStr ''a'', JArr [JBool True, num 0]]) =
     Inr ''1205,,a,true,0''"
  by (simp add: num_def safe_integer_texts)

lemma object_texts:
  "toString nt (JObj [(''correct'', JStr ''friend'')]) = Inr ''[object Object]''"
  "toString nt (JObj [(''toString'', JStr ''x'')]) =
     Inl (TypeError ''Cannot convert object to primitive value'')"
  "toString nt (JArr [JStr ''a'', JObj [(''toString'', JStr ''x'')]]) =
     Inl (TypeError ''Cannot convert object to primitive value'')"
  by simp_all

lemma toString_object_throws_run:
  "generate_report nt (JStr ''test-key'') mk
     [(''studentName'', JObj [(''toString'', JStr ''x'')]), (''grade'', num 3), (''score'', num 0),
      (''totalItems'', num 10), (''incorrectWords'', JArr [])] w =
   (internal_error ''Cannot convert object to primitive value'',
    w\<lparr>events := events w @ startup_events @
        [ConsoleLog ''Running analyst node...'',
         ConsoleError ''Error generating report:''
           (TypeError ''Cannot convert object to primitive value'')]\<rparr>)"
proof -
  let ?b = "[(''studentName'', JObj [(''toString'', JStr ''x'')]), (''grade'', num 3),
      (''score'', num 0), (''totalItems'', num 10), (''incorrectWords'', JArr [])]"
  have "\<not> missing_required_fields ?b"
    by (simp add: valid_iff property_def num_def)
  moreover have "analystPrompt nt (input_state ?b) =
      Inl (TypeError ''Cannot convert object to primitive value'')"
    by (simp add: analystPrompt_def input_state_fields property_def)
  ultimately show ?thesis
    using run_analyst_throws [of "JStr ''test-key''" ?b nt
        "TypeError ''Cannot convert object to primitive value''" mk w]
    by simp
qed

section \<open>The properties of the specification\<close>

text \<open>
  C1. For a request that passes both checks, once the analyst's prompt is built and
  its call to the capability returns a text \<open>a\<close>, the state handed to the reporter holds
  \<open>a\<close> in its field \<open>analysis\<close>. Whenever the reporter's prompt is built, the capability is
  called exactly twice, the second time with that prompt, which contains \<open>a\<close> verbatim,
  and the reporter node starts after the analyst node has completed. When it cannot be
  built (a score or a total that a template literal cannot print), the capability has
  been called once and the response has status 500: no second call is made with any
  other text.
\<close>

theorem reporter_prompt_carries_analysis:
  assumes "truthy key" and "\<not> missing_required_fields b"
    and "analystPrompt nt (input_state b) = Inr p1"
    and "mk (gemini_config key) (capability_state w) p1 = (Inr a, s1)"
  shows "analysed_state b a ''analysis'' = JStr a
       \<and> (\<forall>p2. reporterPrompt nt (analysed_state b a) = Inr p2 \<longrightarrow>
             sublist a p2
             \<and> model_calls (events (snd (generate_report nt key mk b w))) =
                 model_calls (events w) @ [p1, p2]
             \<and> (\<exists>es. events (snd (generate_report nt key mk b w)) =
                   events w @ startup_events @
                   [ConsoleLog ''Running analyst node...'',
                    ModelInvoke p1,
                    ConsoleLog ''Analyst node complete.'',
                    ConsoleLog ''Running reporter node...'',
                    ModelInvoke p2] @ es))
       \<and> (\<forall>e. reporterPrompt nt (analysed_state b a) = Inl e \<longrightarrow>
             model_calls (events (snd (generate_report nt key mk b w))) =
               model_calls (events w) @ [p1]
             \<and> fst (generate_report nt key mk b w) =
                 Response 500
                   (JObj [(''error'',
                           JStr ''An internal error occurred while generating the report.''),
                          (''details'', JStr (message e))]))"
proof (intro conjI allI impI)
  show field: "analysed_state b a ''analysis'' = JStr a"
    by (rule analysed_state_fields)
  fix p2
  assume p2: "reporterPrompt nt (analysed_state b a) = Inr p2"
  then obtain n g sc t a' where "toString nt (analysed_state b a ''analysis'') = Inr a'"
    and "p2 = reporterTemplate n g sc t a'"
    by (rule reporterPrompt_Inr)
  with field have "p2 = reporterTemplate n g sc t a"
    by simp
  then show "sublist a p2"
    by (simp add: reporterTemplate_analysis)
  obtain x s2 where call2: "mk (gemini_config key) s1 p2 = (x, s2)"
    by (cases "mk (gemini_config key) s1 p2")
  show "model_calls (events (snd (generate_report nt key mk b w))) =
          model_calls (events w) @ [p1, p2]"
  proof (cases x)
    case (Inl e)
    with assms p2 call2 show ?thesis
      by (simp add: run_reporter_fails model_calls_append model_calls_startup)
  next
    case (Inr r)
    with assms p2 call2 show ?thesis
      by (simp add: run_success model_calls_append model_calls_startup)
  qed
  show "\<exists>es. events (snd (generate_report nt key mk b w)) =
          events w @ startup_events @
          [ConsoleLog ''Running analyst node...'',
           ModelInvoke p1,
           ConsoleLog ''Analyst node complete.'',
           ConsoleLog ''Running reporter node...'',
           ModelInvoke p2] @ es"
  proof (cases x)
    case (Inl e)
    with assms p2 call2 show ?thesis
      by (simp add: run_reporter_fails)
  next
    case (Inr r)
    with assms p2 call2 show ?thesis
      by (simp add: run_success)
  qed
next
  fix e
  assume "reporterPrompt nt (analysed_state b a) = Inl e"
  with assms
  have run: "generate_report nt key mk b w =
     (internal_error (message e),
      w\<lparr>events := events w @ startup_events @
          [ConsoleLog ''Running analyst node...'',
           ModelInvoke p1,
           ConsoleLog ''Analyst node complete.'',
           ConsoleLog ''Running reporter node...'',
           ConsoleError ''Error generating report:'' e],
        capability_state := s1\<rparr>)"
    by (rule run_reporter_throws)
  show "model_calls (events (snd (generate_report nt key mk b w))) = model_calls (events w) @ [p1]"
    by (simp add: run model_calls_append model_calls_startup)
  show "fst (generate_report nt key mk b w) =
          Response 500
            (JObj [(''error'', JStr ''An internal error occurred while generating the report.''),
                   (''details'', JStr (message e))])"
    by (simp add: run internal_error_def)
qed

theorem reporter_prompt_carries_analysis_witness:
  "model_calls (events (snd (generate_report safe_integer_text (JStr ''test-key'') scripted
       (alex (num 7) friend_words)
       (fresh [Inr ''- vowel swap pattern'', Inr ''<p>Great job, Alex!</p>'']))))
     = [analystTemplate ''Alex'' ''3'' (stringify_text safe_integer_text friend_words),
        reporterTemplate ''Alex'' ''3'' ''7'' ''10'' ''- vowel swap pattern'']
   \<and> sublist ''- vowel swap pattern''
        (reporterTemplate ''Alex'' ''3'' ''7'' ''10'' ''- vowel swap pattern'')"
proof -
  have "toString safe_integer_text (num 7) = Inr ''7''"
    by (simp add: num_def safe_integer_texts)
  then have p2: "reporterPrompt safe_integer_text
                   (analysed_state (alex (num 7) friend_words) ''- vowel swap pattern'') =
                 Inr (reporterTemplate ''Alex'' ''3'' ''7'' ''10'' ''- vowel swap pattern'')"
    by (rule alex_reporterPrompt)
  have valid: "\<not> missing_required_fields (alex (num 7) friend_words)"
    by (rule alex_valid) (simp_all add: num_def friend_words_def)
  from reporter_prompt_carries_analysis [of "JStr ''test-key''" "alex (num 7) friend_words"
      safe_integer_text
      "analystTemplate ''Alex'' ''3'' (stringify_text safe_integer_text friend_words)"
      scripted "fresh [Inr ''- vowel swap pattern'', Inr ''<p>Great job, Alex!</p>'']"
      "''- vowel swap pattern''" "[Inr ''<p>Great job, Alex!</p>'']"] valid p2
  show ?thesis
    by (simp add: alex_analystPrompt scripted_def fresh_def)
qed

text \<open>
  C2, as amended. While the credential is set, a request in which at least one of
  \<open>studentName\<close>, \<open>grade\<close>, \<open>score\<close>, \<open>totalItems\<close>, \<open>incorrectWords\<close> is missing from the body
  is answered with status 400 and the fixed validation message; the run writes the first
  log line and nothing else, so the capability is never called and its state is the one
  it had.
\<close>

theorem missing_field_is_400_without_call:
  assumes "truthy key"
    and "property b ''studentName'' = JUndefined \<or> property b ''grade'' = JUndefined
         \<or> property b ''score'' = JUndefined \<or> property b ''totalItems'' = JUndefined
         \<or> property b ''incorrectWords'' = JUndefined"
  shows "fst (generate_report nt key mk b w) =
           Response 400 (JObj [(''error'', JStr ''Missing required fields in request body.'')])
       \<and> events (snd (generate_report nt key mk b w)) =
           events w @ [ConsoleLog ''Received request to /api/generate-report'']
       \<and> model_calls (events (snd (generate_report nt key mk b w))) = model_calls (events w)
       \<and> capability_state (snd (generate_report nt key mk b w)) = capability_state w"
proof -
  from assms(2) have "missing_required_fields b"
    by (rule missing_if_undefined)
  with assms(1) show ?thesis
    by (simp add: run_missing validation_error_def model_calls_append)
qed

theorem missing_field_is_400_without_call_witness:
  "fst (generate_report safe_integer_text (JStr ''test-key'') scripted
          [(''studentName'', JStr ''Alex''), (''grade'', num 3)] (fresh [])) =
     Response 400 (JObj [(''error'', JStr ''Missing required fields in request body.'')])
   \<and> model_calls (events (snd (generate_report safe_integer_text (JStr ''test-key'') scripted
          [(''studentName'', JStr ''Alex''), (''grade'', num 3)] (fresh [])))) = []"
  using missing_field_is_400_without_call [of "JStr ''test-key''"
      "[(''studentName'', JStr ''Alex''), (''grade'', num 3)]" safe_integer_text scripted
      "fresh []"]
  by (simp add: property_def fresh_def)

text \<open>
  C2 as first stated has no condition on the credential. With the credential absent, a
  request with every field missing is answered with status 500, not 400.
\<close>

theorem missing_field_without_credential_counterexample:
  "property [] ''studentName'' = JUndefined
   \<and> fst (generate_report safe_integer_text JUndefined scripted [] (fresh [])) =
       Response 500
         (JObj [(''error'', JStr ''An internal error occurred while generating the report.''),
                (''details'', JStr ''GEMINI_API_KEY environment variable not set.'')])"
  by (simp add: property_def run_no_key internal_error_def)

text \<open>
  C3. While the credential is absent (\<^verbatim>\<open>undefined\<close>, or any other falsy value such as the
  empty string), every request is answered with status 500 and the configuration error's
  message as details. The error is raised before either stage runs: the run writes the
  first log line and the error line of the catch block, calls the capability not once and
  leaves its state as it was.
\<close>

theorem absent_credential_is_500_without_call:
  assumes "\<not> truthy key"
  shows "fst (generate_report nt key mk b w) =
           Response 500
             (JObj [(''error'', JStr ''An internal error occurred while generating the report.''),
                    (''details'', JStr ''GEMINI_API_KEY environment variable not set.'')])
       \<and> events (snd (generate_report nt key mk b w)) =
           events w @
             [ConsoleLog ''Received request to /api/generate-report'',
              ConsoleError ''Error generating report:''
                (Error ''GEMINI_API_KEY environment variable not set.'')]
       \<and> model_calls (events (snd (generate_report nt key mk b w))) = model_calls (events w)
       \<and> capability_state (snd (generate_report nt key mk b w)) = capability_state w"
  using assms by (simp add: run_no_key internal_error_def model_calls_append)

theorem absent_credential_is_500_without_call_witness:
  "status (fst (generate_report safe_integer_text JUndefined scripted
                  (alex (num 7) friend_words)
                  (fresh [Inr ''- vowel swap pattern'', Inr ''<p>Great job, Alex!</p>'']))) = 500
   \<and> model_calls (events (snd (generate_report safe_integer_text JUndefined scripted
                  (alex (num 7) friend_words)
                  (fresh [Inr ''- vowel swap pattern'', Inr ''<p>Great job, Alex!</p>''])))) = []
   \<and> capability_state (snd (generate_report safe_integer_text JUndefined scripted
                  (alex (num 7) friend_words)
                  (fresh [Inr ''- vowel swap pattern'', Inr ''<p>Great job, Alex!</p>''])))
       = [Inr ''- vowel swap pattern'', Inr ''<p>Great job, Alex!</p>'']"
  using absent_credential_is_500_without_call [of JUndefined safe_integer_text scripted
      "alex (num 7) friend_words"
      "fresh [Inr ''- vowel swap pattern'', Inr ''<p>Great job, Alex!</p>'']"]
  by (simp add: fresh_def)

text \<open>
  C4. When both stages succeed (both prompts are built and the capability answers both
  calls), the response has status 200 and its body is the object with the single field
  \<open>report\<close>, whose value is verbatim the text \<open>r\<close> that the reporter's call returned. The
  body has no other field: the analysis \<open>a\<close> of stage 1 reaches the caller nowhere but
  through what the capability itself made of it in \<open>r\<close>.
\<close>

theorem success_returns_only_the_report:
  assumes "truthy key" and "\<not> missing_required_fields b"
    and "analystPrompt nt (input_state b) = Inr p1"
    and "mk (gemini_config key) (capability_state w) p1 = (Inr a, s1)"
    and "reporterPrompt nt (analysed_state b a) = Inr p2"
    and "mk (gemini_config key) s1 p2 = (Inr r, s2)"
  shows "fst (generate_report nt key mk b w) = Response 200 (JObj [(''report'', JStr r)])"
  using assms by (simp add: run_success)

theorem success_returns_only_the_report_witness:
  "fst (generate_report safe_integer_text (JStr ''test-key'') scripted
          (alex (num 7) friend_words)
          (fresh [Inr ''- vowel swap pattern'',
                  Inr ''<p>Great job, Alex!</p><ul><li>Practice 'friend'</li></ul>'']))
     = Response 200
         (JObj [(''report'', JStr ''<p>Great job, Alex!</p><ul><li>Practice 'friend'</li></ul>'')])"
proof -
  have "toString safe_integer_text (num 7) = Inr ''7''"
    by (simp add: num_def safe_integer_texts)
  then have p2: "reporterPrompt safe_integer_text
                   (analysed_state (alex (num 7) friend_words) ''- vowel swap pattern'') =
                 Inr (reporterTemplate ''Alex'' ''3'' ''7'' ''10'' ''- vowel swap pattern'')"
    by (rule alex_reporterPrompt)
  have valid: "\<not> missing_required_fields (alex (num 7) friend_words)"
    by (rule alex_valid) (simp_all add: num_def friend_words_def)
  from success_returns_only_the_report [of "JStr ''test-key''" "alex (num 7) friend_words"
      safe_integer_text
      "analystTemplate ''Alex'' ''3'' (stringify_text safe_integer_text friend_words)"
      scripted
      "fresh [Inr ''- vowel swap pattern'',
              Inr ''<p>Great job, Alex!</p><ul><li>Practice 'friend'</li></ul>'']"
      "''- vowel swap pattern''"
      "[Inr ''<p>Great job, Alex!</p><ul><li>Practice 'friend'</li></ul>'']"
      "reporterTemplate ''Alex'' ''3'' ''7'' ''10'' ''- vowel swap pattern''"
      "''<p>Great job, Alex!</p><ul><li>Practice 'friend'</li></ul>''" "[]"] valid p2
  show ?thesis
    by (simp add: alex_analystPrompt scripted_def fresh_def)
qed

text \<open>
  C5. When the analyst's call to the capability fails with an error \<open>e\<close>, the run ends
  there: the capability has been called once, with the analyst prompt, the reporter node
  never starts, and the response has status 500 with the generic message and the message
  of \<open>e\<close> as details, and no report.
\<close>

theorem analyst_failure_aborts:
  assumes "truthy key" and "\<not> missing_required_fields b"
    and "analystPrompt nt (input_state b) = Inr p1"
    and "mk (gemini_config key) (capability_state w) p1 = (Inl e, s1)"
  shows "fst (generate_report nt key mk b w) =
           Response 500
             (JObj [(''error'', JStr ''An internal error occurred while generating the report.''),
                    (''details'', JStr (message e))])
       \<and> events (snd (generate_report nt key mk b w)) =
           events w @ startup_events @
             [ConsoleLog ''Running analyst node...'',
              ModelInvoke p1,
              ConsoleError ''Error generating report:'' e]
       \<and> model_calls (events (snd (generate_report nt key mk b w))) =
           model_calls (events w) @ [p1]
       \<and> capability_state (snd (generate_report nt key mk b w)) = s1"
  using assms
  by (simp add: run_analyst_fails internal_error_def model_calls_append model_calls_startup)

theorem analyst_failure_aborts_witness:
  "fst (generate_report safe_integer_text (JStr ''test-key'') scripted
          (alex (num 7) friend_words)
          (fresh [Inl (Error ''fetch failed''), Inr ''<p>Great job, Alex!</p>'']))
     = Response 500
         (JObj [(''error'', JStr ''An internal error occurred while generating the report.''),
                (''details'', JStr ''fetch failed'')])
   \<and> model_calls (events (snd (generate_report safe_integer_text (JStr ''test-key'') scripted
          (alex (num 7) friend_words)
          (fresh [Inl (Error ''fetch failed''), Inr ''<p>Great job, Alex!</p>'']))))
     = [analystTemplate ''Alex'' ''3'' (stringify_text safe_integer_text friend_words)]
   \<and> capability_state (snd (generate_report safe_integer_text (JStr ''test-key'') scripted
          (alex (num 7) friend_words)
          (fresh [Inl (Error ''fetch failed''), Inr ''<p>Great job, Alex!</p>''])))
     = [Inr ''<p>Great job, Alex!</p>'']"
proof -
  have valid: "\<not> missing_required_fields (alex (num 7) friend_words)"
    by (rule alex_valid) (simp_all add: num_def friend_words_def)
  from analyst_failure_aborts [of "JStr ''test-key''" "alex (num 7) friend_words"
      safe_integer_text
      "analystTemplate ''Alex'' ''3'' (stringify_text safe_integer_text friend_words)"
      scripted "fresh [Inl (Error ''fetch failed''), Inr ''<p>Great job, Alex!</p>'']"
      "Error ''fetch failed''" "[Inr ''<p>Great job, Alex!</p>'']"] valid
  show ?thesis
    by (simp add: alex_analystPrompt scripted_def fresh_def model_calls_append
        model_calls_startup)
qed

text \<open>
  C6, as amended. While the credential is set, the request is refused with the validation
  response exactly when it is not the case that \<open>studentName\<close>, \<open>grade\<close>, \<open>totalItems\<close> and
  \<open>incorrectWords\<close> are non-falsy and \<open>score\<close> is not \<^verbatim>\<open>undefined\<close>. In particular a request
  with score \<open>0\<close> and the other four fields non-falsy passes, and the pipeline runs: the
  response is not a 400, the graph is invoked on a state whose score is \<open>0\<close>, the analyst
  node starts, and its call to the capability is made as soon as its prompt is built.
\<close>

theorem validation_requires_defined_score:
  assumes "truthy key"
  shows "(fst (generate_report nt key mk b w) =
            Response 400 (JObj [(''error'', JStr ''Missing required fields in request body.'')]))
         = (\<not> (truthy (property b ''studentName'') \<and> truthy (property b ''grade'')
                \<and> property b ''score'' \<noteq> JUndefined
                \<and> truthy (property b ''totalItems'')
                \<and> truthy (property b ''incorrectWords'')))
       \<and> (truthy (property b ''studentName'') \<and> truthy (property b ''grade'')
            \<and> property b ''score'' = JNum (Finite 0)
            \<and> truthy (property b ''totalItems'') \<and> truthy (property b ''incorrectWords'')
          \<longrightarrow> status (fst (generate_report nt key mk b w)) \<noteq> 400
              \<and> input_state b ''score'' = JNum (Finite 0)
              \<and> (\<exists>es. events (snd (generate_report nt key mk b w)) =
                    events w @ startup_events @ [ConsoleLog ''Running analyst node...''] @ es)
              \<and> (\<forall>p1. analystPrompt nt (input_state b) = Inr p1 \<longrightarrow>
                    (\<exists>ps. model_calls (events (snd (generate_report nt key mk b w))) =
                            model_calls (events w) @ p1 # ps)))"
proof (intro conjI impI allI)
  show "(fst (generate_report nt key mk b w) =
            Response 400 (JObj [(''error'', JStr ''Missing required fields in request body.'')]))
         = (\<not> (truthy (property b ''studentName'') \<and> truthy (property b ''grade'')
                \<and> property b ''score'' \<noteq> JUndefined
                \<and> truthy (property b ''totalItems'')
                \<and> truthy (property b ''incorrectWords'')))"
  proof (cases "missing_required_fields b")
    case True
    with assms show ?thesis
      unfolding valid_iff [symmetric] by (simp add: run_missing validation_error_def)
  next
    case False
    with assms have "status (fst (generate_report nt key mk b w)) \<noteq> 400"
      by (rule run_valid_status)
    then have "fst (generate_report nt key mk b w) \<noteq>
            Response 400 (JObj [(''error'', JStr ''Missing required fields in request body.'')])"
      by auto
    with False show ?thesis
      unfolding valid_iff [symmetric] by simp
  qed
next
  assume zero: "truthy (property b ''studentName'') \<and> truthy (property b ''grade'')
            \<and> property b ''score'' = JNum (Finite 0)
            \<and> truthy (property b ''totalItems'') \<and> truthy (property b ''incorrectWords'')"
  then show "input_state b ''score'' = JNum (Finite 0)"
    by (simp add: input_state_fields)
  from zero have valid: "\<not> missing_required_fields b"
    by (simp add: valid_iff)
  with assms show "status (fst (generate_report nt key mk b w)) \<noteq> 400"
    by (rule run_valid_status)
  from assms valid
  show "\<exists>es. events (snd (generate_report nt key mk b w)) =
          events w @ startup_events @ [ConsoleLog ''Running analyst node...''] @ es"
    by (rule run_valid_started)
  fix p1
  assume "analystPrompt nt (input_state b) = Inr p1"
  with assms valid
  show "\<exists>ps. model_calls (events (snd (generate_report nt key mk b w))) =
               model_calls (events w) @ p1 # ps"
    by (rule run_valid_first_call)
qed

theorem validation_requires_defined_score_witness:
  "status (fst (generate_report safe_integer_text (JStr ''test-key'') scripted
                  (alex (num 0) friend_words)
                  (fresh [Inr ''- vowel swap pattern'', Inr ''<p>Great job, Alex!</p>'']))) \<noteq> 400
   \<and> input_state (alex (num 0) friend_words) ''score'' = JNum (Finite 0)
   \<and> (\<exists>ps. model_calls (events (snd (generate_report safe_integer_text (JStr ''test-key'')
                 scripted (alex (num 0) friend_words)
                 (fresh [Inr ''- vowel swap pattern'', Inr ''<p>Great job, Alex!</p>''])))) =
              analystTemplate ''Alex'' ''3'' (stringify_text safe_integer_text friend_words) # ps)"
proof -
  have fields: "truthy (property (alex (num 0) friend_words) ''studentName'')
      \<and> truthy (property (alex (num 0) friend_words) ''grade'')
      \<and> property (alex (num 0) friend_words) ''score'' = JNum (Finite 0)
      \<and> truthy (property (alex (num 0) friend_words) ''totalItems'')
      \<and> truthy (property (alex (num 0) friend_words) ''incorrectWords'')"
    by (simp add: property_def alex_def num_def friend_words_def)
  have key: "truthy (JStr ''test-key'')"
    by simp
  note run = validation_requires_defined_score [OF key, of safe_integer_text scripted
      "alex (num 0) friend_words"
      "fresh [Inr ''- vowel swap pattern'', Inr ''<p>Great job, Alex!</p>'']",
      THEN conjunct2, THEN mp, OF fields]
  note call = run [THEN conjunct2, THEN conjunct2, THEN conjunct2, THEN spec, THEN mp,
      OF alex_analystPrompt]
  from run [THEN conjunct1] run [THEN conjunct2, THEN conjunct1] call
  show ?thesis
    by (simp add: fresh_def)
qed

text \<open>
  C6 as first stated makes \<open>0\<close> the single falsy score that counts as present. A score of
  \<^verbatim>\<open>null\<close> is falsy and is not \<open>0\<close>, and yet the request passes and the report is returned.
\<close>

theorem null_score_accepted_counterexample:
  "\<not> valid_as_specified (alex JNull friend_words)
   \<and> fst (generate_report safe_integer_text (JStr ''test-key'') scripted
            (alex JNull friend_words)
            (fresh [Inr ''- vowel swap pattern'', Inr ''<p>Great job, Alex!</p>'']))
       = Response 200 (JObj [(''report'', JStr ''<p>Great job, Alex!</p>'')])"
proof -
  have p2: "reporterPrompt safe_integer_text
              (analysed_state (alex JNull friend_words) ''- vowel swap pattern'') =
            Inr (reporterTemplate ''Alex'' ''3'' ''null'' ''10'' ''- vowel swap pattern'')"
    by (rule alex_reporterPrompt) simp
  have valid: "\<not> missing_required_fields (alex JNull friend_words)"
    by (rule alex_valid) (simp_all add: friend_words_def)
  have "\<not> valid_as_specified (alex JNull friend_words)"
    by (simp add: valid_as_specified_def property_def alex_def)
  with run_success [of "JStr ''test-key''" "alex JNull friend_words" safe_integer_text
      "analystTemplate ''Alex'' ''3'' (stringify_text safe_integer_text friend_words)"
      scripted "fresh [Inr ''- vowel swap pattern'', Inr ''<p>Great job, Alex!</p>'']"
      "''- vowel swap pattern''" "[Inr ''<p>Great job, Alex!</p>'']"
      "reporterTemplate ''Alex'' ''3'' ''null'' ''10'' ''- vowel swap pattern''"
      "''<p>Great job, Alex!</p>''" "[]"] valid p2
  show ?thesis
    by (simp add: alex_analystPrompt scripted_def fresh_def)
qed

text \<open>
  C7. With a capability whose answer is fixed by the prompt alone (\<open>f\<close>), whatever its
  own state, the response to a request does not depend on the world the handler runs
  in: a second run, in the world the first one left behind, gives the same response, and
  so does a run in any other world. The handler keeps nothing between two runs but the
  console output and the capability's state, and neither changes the result.
\<close>

theorem two_runs_same_response:
  assumes "\<forall>s p. fst (mk (gemini_config key) s p) = f p"
  shows "fst (generate_report nt key mk b (snd (generate_report nt key mk b w))) =
           fst (generate_report nt key mk b w)
       \<and> (\<forall>w'. fst (generate_report nt key mk b w') = fst (generate_report nt key mk b w))"
  using assms by (simp add: response_of_fixed_capability [of mk key f])

theorem two_runs_same_response_witness:
  "fst (generate_report safe_integer_text (JStr ''test-key'') counting
          (alex (num 7) friend_words)
          (snd (generate_report safe_integer_text (JStr ''test-key'') counting
                  (alex (num 7) friend_words) (fresh 0)))) =
     fst (generate_report safe_integer_text (JStr ''test-key'') counting
            (alex (num 7) friend_words) (fresh 0))
   \<and> fst (generate_report safe_integer_text (JStr ''test-key'') counting
            (alex (num 7) friend_words) (fresh 0)) =
       Response 200 (JObj [(''report'', JStr ''<p>Well done!</p>'')])
   \<and> capability_state (snd (generate_report safe_integer_text (JStr ''test-key'') counting
          (alex (num 7) friend_words) (fresh 0))) = 2"
proof -
  have "toString safe_integer_text (num 7) = Inr ''7''"
    by (simp add: num_def safe_integer_texts)
  then have p2: "reporterPrompt safe_integer_text
                   (analysed_state (alex (num 7) friend_words) ''<p>Well done!</p>'') =
                 Inr (reporterTemplate ''Alex'' ''3'' ''7'' ''10'' ''<p>Well done!</p>'')"
    by (rule alex_reporterPrompt)
  have valid: "\<not> missing_required_fields (alex (num 7) friend_words)"
    by (rule alex_valid) (simp_all add: num_def friend_words_def)
  have once: "generate_report safe_integer_text (JStr ''test-key'') counting
                (alex (num 7) friend_words) (fresh 0) =
     (Response 200 (JObj [(''report'', JStr ''<p>Well done!</p>'')]),
      (fresh 0)\<lparr>events := events (fresh 0) @ startup_events @
          [ConsoleLog ''Running analyst node...'',
           ModelInvoke (analystTemplate ''Alex'' ''3''
                          (stringify_text safe_integer_text friend_words)),
           ConsoleLog ''Analyst node complete.'',
           ConsoleLog ''Running reporter node...'',
           ModelInvoke (reporterTemplate ''Alex'' ''3'' ''7'' ''10'' ''<p>Well done!</p>''),
           ConsoleLog ''Reporter node complete.'',
           ConsoleLog ''Graph invocation complete.''],
        capability_state := 2\<rparr>)"
    using valid p2
      run_success [of "JStr ''test-key''" "alex (num 7) friend_words" safe_integer_text
        "analystTemplate ''Alex'' ''3'' (stringify_text safe_integer_text friend_words)"
        counting "fresh 0" "''<p>Well done!</p>''" 1
        "reporterTemplate ''Alex'' ''3'' ''7'' ''10'' ''<p>Well done!</p>''"
        "''<p>Well done!</p>''" 2]
    by (simp add: alex_analystPrompt counting_def fresh_def)
  from two_runs_same_response [of counting "JStr ''test-key''" "\<lambda>p. Inr ''<p>Well done!</p>''"
      safe_integer_text "alex (num 7) friend_words" "fresh 0"]
  have "fst (generate_report safe_integer_text (JStr ''test-key'') counting
          (alex (num 7) friend_words)
          (snd (generate_report safe_integer_text (JStr ''test-key'') counting
                  (alex (num 7) friend_words) (fresh 0)))) =
     fst (generate_report safe_integer_text (JStr ''test-key'') counting
            (alex (num 7) friend_words) (fresh 0))"
    by (simp add: counting_def)
  moreover have "fst (generate_report safe_integer_text (JStr ''test-key'') counting
                        (alex (num 7) friend_words) (fresh 0)) =
       Response 200 (JObj [(''report'', JStr ''<p>Well done!</p>'')])"
    by (subst once) simp
  moreover have "capability_state (snd (generate_report safe_integer_text (JStr ''test-key'')
          counting (alex (num 7) friend_words) (fresh 0))) = 2"
    by (subst once) simp
  ultimately show ?thesis
    by simp
qed

text \<open>
  C8. A request whose \<open>incorrectWords\<close> is the empty list and whose other fields are as
  line 32 demands passes validation: the response is not a 400, the graph is invoked on
  a state that holds the empty list, and the analyst node starts; the empty list
  short-circuits nothing. When moreover the other fields are values a template literal
  prints (\<open>toString\<close> gives their texts, as it does for every string and number) and the
  capability answers both calls, both stages run: the analyst prompt is built with the
  empty list embedded as \<^verbatim>\<open>[]\<close>, the reporter prompt is built, the capability is called
  with the one and then the other, and the response is status 200 with the report text
  that the capability produced.
\<close>

theorem empty_word_list_runs_both_stages:
  assumes "truthy key"
    and "truthy (property b ''studentName'')" and "truthy (property b ''grade'')"
    and "property b ''score'' \<noteq> JUndefined" and "truthy (property b ''totalItems'')"
    and "property b ''incorrectWords'' = JArr []"
  shows "\<not> missing_required_fields b
       \<and> status (fst (generate_report nt key mk b w)) \<noteq> 400
       \<and> input_state b ''incorrectWords'' = JArr []
       \<and> (\<exists>es. events (snd (generate_report nt key mk b w)) =
             events w @ startup_events @ [ConsoleLog ''Running analyst node...''] @ es)
       \<and> (\<forall>n g sc t a s1 r s2.
            toString nt (property b ''studentName'') = Inr n
            \<and> toString nt (property b ''grade'') = Inr g
            \<and> toString nt (property b ''score'') = Inr sc
            \<and> toString nt (property b ''totalItems'') = Inr t
            \<and> mk (gemini_config key) (capability_state w) (analystTemplate n g ''[]'') = (Inr a, s1)
            \<and> mk (gemini_config key) s1 (reporterTemplate n g sc t a) = (Inr r, s2)
          \<longrightarrow> analystPrompt nt (input_state b) = Inr (analystTemplate n g ''[]'')
              \<and> sublist (''      Incorrect words (correct -> student's attempt): '' @ ''[]'' @ nl)
                   (analystTemplate n g ''[]'')
              \<and> reporterPrompt nt (analysed_state b a) = Inr (reporterTemplate n g sc t a)
              \<and> model_calls (events (snd (generate_report nt key mk b w))) =
                  model_calls (events w) @
                    [analystTemplate n g ''[]'', reporterTemplate n g sc t a]
              \<and> fst (generate_report nt key mk b w) =
                  Response 200 (JObj [(''report'', JStr r)]))"
proof (intro conjI allI impI)
  show valid: "\<not> missing_required_fields b"
    using assms(2-6) by (simp add: valid_iff)
  from assms(1) valid show "status (fst (generate_report nt key mk b w)) \<noteq> 400"
    by (rule run_valid_status)
  show words: "input_state b ''incorrectWords'' = JArr []"
    using assms(6) by (simp add: input_state_fields)
  from assms(1) valid
  show "\<exists>es. events (snd (generate_report nt key mk b w)) =
          events w @ startup_events @ [ConsoleLog ''Running analyst node...''] @ es"
    by (rule run_valid_started)
  fix n g sc t a s1 r s2
  assume run: "toString nt (property b ''studentName'') = Inr n
            \<and> toString nt (property b ''grade'') = Inr g
            \<and> toString nt (property b ''score'') = Inr sc
            \<and> toString nt (property b ''totalItems'') = Inr t
            \<and> mk (gemini_config key) (capability_state w) (analystTemplate n g ''[]'') = (Inr a, s1)
            \<and> mk (gemini_config key) s1 (reporterTemplate n g sc t a) = (Inr r, s2)"
  have "analystPrompt nt (input_state b) =
          Inr (analystTemplate n g (stringify_text nt (input_state b ''incorrectWords'')))"
    using run by (intro analystPrompt_built) (simp_all add: input_state_fields)
  then show p1: "analystPrompt nt (input_state b) = Inr (analystTemplate n g ''[]'')"
    by (simp only: words stringify_text_empty)
  show "sublist (''      Incorrect words (correct -> student's attempt): '' @ ''[]'' @ nl)
          (analystTemplate n g ''[]'')"
    by (rule analystTemplate_words)
  show p2: "reporterPrompt nt (analysed_state b a) = Inr (reporterTemplate n g sc t a)"
    using run by (intro reporterPrompt_built) (simp_all add: analysed_state_fields)
  from run have call1: "mk (gemini_config key) (capability_state w) (analystTemplate n g ''[]'')
                          = (Inr a, s1)"
    and call2: "mk (gemini_config key) s1 (reporterTemplate n g sc t a) = (Inr r, s2)"
    by simp_all
  from assms(1) valid p1 call1 p2 call2
  have whole: "generate_report nt key mk b w =
     (Response 200 (JObj [(''report'', JStr r)]),
      w\<lparr>events := events w @ startup_events @
          [ConsoleLog ''Running analyst node...'',
           ModelInvoke (analystTemplate n g ''[]''),
           ConsoleLog ''Analyst node complete.'',
           ConsoleLog ''Running reporter node...'',
           ModelInvoke (reporterTemplate n g sc t a),
           ConsoleLog ''Reporter node complete.'',
           ConsoleLog ''Graph invocation complete.''],
        capability_state := s2\<rparr>)"
    by (rule run_success)
  show "model_calls (events (snd (generate_report nt key mk b w))) =
          model_calls (events w) @ [analystTemplate n g ''[]'', reporterTemplate n g sc t a]"
    by (simp add: whole model_calls_append model_calls_startup)
  show "fst (generate_report nt key mk b w) = Response 200 (JObj [(''report'', JStr r)])"
    by (simp add: whole)
qed

theorem empty_word_list_runs_both_stages_witness:
  "fst (generate_report safe_integer_text (JStr ''test-key'') scripted
          (alex (num 10) (JArr []))
          (fresh [Inr ''- no mistakes'', Inr ''<p>Perfect score, Alex!</p>'']))
     = Response 200 (JObj [(''report'', JStr ''<p>Perfect score, Alex!</p>'')])
   \<and> model_calls (events (snd (generate_report safe_integer_text (JStr ''test-key'') scripted
          (alex (num 10) (JArr []))
          (fresh [Inr ''- no mistakes'', Inr ''<p>Perfect score, Alex!</p>'']))))
     = [analystTemplate ''Alex'' ''3'' ''[]'',
        reporterTemplate ''Alex'' ''3'' ''10'' ''10'' ''- no mistakes'']
   \<and> sublist (''      Incorrect words (correct -> student's attempt): '' @ ''[]'' @ nl)
        (analystTemplate ''Alex'' ''3'' ''[]'')"
proof -
  have fields: "truthy (JStr ''test-key'')"
    "truthy (property (alex (num 10) (JArr [])) ''studentName'')"
    "truthy (property (alex (num 10) (JArr [])) ''grade'')"
    "property (alex (num 10) (JArr [])) ''score'' \<noteq> JUndefined"
    "truthy (property (alex (num 10) (JArr [])) ''totalItems'')"
    "property (alex (num 10) (JArr [])) ''incorrectWords'' = JArr []"
    by (simp_all add: property_def alex_def num_def)
  have texts: "toString safe_integer_text (property (alex (num 10) (JArr [])) ''studentName'')
                 = Inr ''Alex''"
    "toString safe_integer_text (property (alex (num 10) (JArr [])) ''grade'') = Inr ''3''"
    "toString safe_integer_text (property (alex (num 10) (JArr [])) ''score'') = Inr ''10''"
    "toString safe_integer_text (property (alex (num 10) (JArr [])) ''totalItems'') = Inr ''10''"
    by (simp_all add: property_def alex_def num_def safe_integer_texts)
  have calls: "scripted (gemini_config (JStr ''test-key''))
                 (capability_state (fresh [Inr ''- no mistakes'', Inr ''<p>Perfect score, Alex!</p>'']))
                 (analystTemplate ''Alex'' ''3'' ''[]'') =
               (Inr ''- no mistakes'', [Inr ''<p>Perfect score, Alex!</p>''])"
    "scripted (gemini_config (JStr ''test-key'')) [Inr ''<p>Perfect score, Alex!</p>'']
       (reporterTemplate ''Alex'' ''3'' ''10'' ''10'' ''- no mistakes'') =
     (Inr ''<p>Perfect score, Alex!</p>'', [])"
    by (simp_all add: scripted_def fresh_def)
  note run = empty_word_list_runs_both_stages [OF fields, of safe_integer_text scripted
      "fresh [Inr ''- no mistakes'', Inr ''<p>Perfect score, Alex!</p>'']",
      THEN conjunct2, THEN conjunct2, THEN conjunct2, THEN conjunct2, rule_format,
      of "''Alex''" "''3''" "''10''" "''10''" "''- no mistakes''"
         "[Inr ''<p>Perfect score, Alex!</p>'']" "''<p>Perfect score, Alex!</p>''" "[]"]
  from texts calls have both: "toString safe_integer_text
        (property (alex (num 10) (JArr [])) ''studentName'') = Inr ''Alex''
      \<and> toString safe_integer_text (property (alex (num 10) (JArr [])) ''grade'') = Inr ''3''
      \<and> toString safe_integer_text (property (alex (num 10) (JArr [])) ''score'') = Inr ''10''
      \<and> toString safe_integer_text (property (alex (num 10) (JArr [])) ''totalItems'')
          = Inr ''10''
      \<and> scripted (gemini_config (JStr ''test-key''))
           (capability_state (fresh [Inr ''- no mistakes'', Inr ''<p>Perfect score, Alex!</p>'']))
           (analystTemplate ''Alex'' ''3'' ''[]'') =
         (Inr ''- no mistakes'', [Inr ''<p>Perfect score, Alex!</p>''])
      \<and> scripted (gemini_config (JStr ''test-key'')) [Inr ''<p>Perfect score, Alex!</p>'']
           (reporterTemplate ''Alex'' ''3'' ''10'' ''10'' ''- no mistakes'') =
         (Inr ''<p>Perfect score, Alex!</p>'', [])"
    by (intro conjI)
  from run [OF both] show ?thesis
    by (simp add: fresh_def)
qed

text \<open>
  C9. While the credential is unset, the response has status 500 for every request, also
  one with required fields missing: the credential check comes first, and the response
  is never the validation response.
\<close>

theorem absent_credential_precedes_validation:
  assumes "\<not> truthy key"
  shows "status (fst (generate_report nt key mk b w)) = 500
       \<and> fst (generate_report nt key mk b w) \<noteq>
           Response 400 (JObj [(''error'', JStr ''Missing required fields in request body.'')])"
  using assms by (simp add: run_no_key internal_error_def)

theorem absent_credential_precedes_validation_witness:
  "missing_required_fields []
   \<and> status (fst (generate_report safe_integer_text JUndefined counting [] (fresh 0))) = 500
   \<and> fst (generate_report safe_integer_text JUndefined counting [] (fresh 0)) \<noteq>
       Response 400 (JObj [(''error'', JStr ''Missing required fields in request body.'')])"
  using absent_credential_precedes_validation [of JUndefined safe_integer_text counting "[]"
      "fresh 0"]
  by (simp add: missing_required_fields_def property_def)

text \<open>
  C10. With the credential set and the other four fields non-falsy, the request is
  refused with the validation response exactly when \<open>score\<close> is \<^verbatim>\<open>undefined\<close>. A score of
  \<^verbatim>\<open>null\<close>, \<^verbatim>\<open>false\<close>, the empty string, or any number (negative, fractional, infinite)
  passes, and the pipeline runs with that score: the response is not a 400, the graph is
  invoked on a state that holds the score, the analyst node starts and makes its call as
  soon as its prompt is built, and every reporter prompt that is built prints the score.
\<close>

theorem score_refused_only_when_undefined:
  assumes "truthy key"
    and "truthy (property b ''studentName'')" and "truthy (property b ''grade'')"
    and "truthy (property b ''totalItems'')" and "truthy (property b ''incorrectWords'')"
  shows "(fst (generate_report nt key mk b w) =
            Response 400 (JObj [(''error'', JStr ''Missing required fields in request body.'')]))
         = (property b ''score'' = JUndefined)
       \<and> (property b ''score'' \<in> {JNull, JBool False, JStr ''''} \<union> range JNum
          \<longrightarrow> status (fst (generate_report nt key mk b w)) \<noteq> 400
              \<and> input_state b ''score'' = property b ''score''
              \<and> (\<exists>es. events (snd (generate_report nt key mk b w)) =
                    events w @ startup_events @ [ConsoleLog ''Running analyst node...''] @ es)
              \<and> (\<forall>p1. analystPrompt nt (input_state b) = Inr p1 \<longrightarrow>
                    (\<exists>ps. model_calls (events (snd (generate_report nt key mk b w))) =
                            model_calls (events w) @ p1 # ps))
              \<and> (\<exists>shown. toString nt (property b ''score'') = Inr shown
                    \<and> (\<forall>a p2. reporterPrompt nt (analysed_state b a) = Inr p2 \<longrightarrow>
                          sublist (''      Score: '' @ shown @ ''/'') p2)))"
proof (intro conjI impI)
  show "(fst (generate_report nt key mk b w) =
            Response 400 (JObj [(''error'', JStr ''Missing required fields in request body.'')]))
         = (property b ''score'' = JUndefined)"
  proof (cases "property b ''score'' = JUndefined")
    case True
    then have "missing_required_fields b"
      by (simp add: missing_required_fields_def)
    with assms(1) True show ?thesis
      by (simp add: run_missing validation_error_def)
  next
    case False
    with assms(2-5) have "\<not> missing_required_fields b"
      by (simp add: valid_iff)
    with assms(1) have "status (fst (generate_report nt key mk b w)) \<noteq> 400"
      by (rule run_valid_status)
    with False show ?thesis
      by auto
  qed
next
  assume score: "property b ''score'' \<in> {JNull, JBool False, JStr ''''} \<union> range JNum"
  then have defined: "property b ''score'' \<noteq> JUndefined"
    by auto
  with assms(2-5) have valid: "\<not> missing_required_fields b"
    by (simp add: valid_iff)
  from assms(1) valid show "status (fst (generate_report nt key mk b w)) \<noteq> 400"
    by (rule run_valid_status)
  show "input_state b ''score'' = property b ''score''"
    by (rule input_state_fields)
  from assms(1) valid
  show "\<exists>es. events (snd (generate_report nt key mk b w)) =
          events w @ startup_events @ [ConsoleLog ''Running analyst node...''] @ es"
    by (rule run_valid_started)
  show "\<forall>p1. analystPrompt nt (input_state b) = Inr p1 \<longrightarrow>
          (\<exists>ps. model_calls (events (snd (generate_report nt key mk b w))) =
                  model_calls (events w) @ p1 # ps)"
    using assms(1) valid by (auto intro: run_valid_first_call)
  from score obtain shown where shown: "toString nt (property b ''score'') = Inr shown"
    by auto
  have "sublist (''      Score: '' @ shown @ ''/'') p2"
    if "reporterPrompt nt (analysed_state b a) = Inr p2" for a p2
  proof -
    from that obtain n g sc t a' where "toString nt (analysed_state b a ''score'') = Inr sc"
      and p2: "p2 = reporterTemplate n g sc t a'"
      by (rule reporterPrompt_Inr)
    with shown have "sc = shown"
      by (simp add: analysed_state_fields)
    with p2 have "p2 = reporterTemplate n g shown t a'"
      by simp
    then show ?thesis
      by (simp only: reporterTemplate_score)
  qed
  with shown
  show "\<exists>shown. toString nt (property b ''score'') = Inr shown
          \<and> (\<forall>a p2. reporterPrompt nt (analysed_state b a) = Inr p2 \<longrightarrow>
                sublist (''      Score: '' @ shown @ ''/'') p2)"
    by blast
qed

theorem score_refused_only_when_undefined_witness:
  "status (fst (generate_report safe_integer_text (JStr ''test-key'') scripted
                  (alex JNull friend_words)
                  (fresh [Inr ''- vowel swap pattern'', Inr ''<p>Great job, Alex!</p>'']))) \<noteq> 400
   \<and> input_state (alex JNull friend_words) ''score'' = JNull
   \<and> status (fst (generate_report safe_integer_text (JStr ''test-key'') scripted
                  (alex (JNum (Finite (- 15 / 2))) friend_words)
                  (fresh [Inr ''- vowel swap pattern'', Inr ''<p>Great job, Alex!</p>'']))) \<noteq> 400
   \<and> input_state (alex (JNum (Finite (- 15 / 2))) friend_words) ''score''
       = JNum (Finite (- 15 / 2))
   \<and> status (fst (generate_report safe_integer_text (JStr ''test-key'') scripted
                  (alex (JNum Infinity) friend_words)
                  (fresh [Inr ''- vowel swap pattern'', Inr ''<p>Great job, Alex!</p>'']))) \<noteq> 400"
  using score_refused_only_when_undefined [of "JStr ''test-key''" "alex JNull friend_words"
      safe_integer_text scripted
      "fresh [Inr ''- vowel swap pattern'', Inr ''<p>Great job, Alex!</p>'']"]
    score_refused_only_when_undefined [of "JStr ''test-key''"
      "alex (JNum (Finite (- 15 / 2))) friend_words" safe_integer_text scripted
      "fresh [Inr ''- vowel swap pattern'', Inr ''<p>Great job, Alex!</p>'']"]
    score_refused_only_when_undefined [of "JStr ''test-key''"
      "alex (JNum Infinity) friend_words" safe_integer_text scripted
      "fresh [Inr ''- vowel swap pattern'', Inr ''<p>Great job, Alex!</p>'']"]
  by (simp add: property_def alex_def num_def friend_words_def)

end
